theory Spec2Isabelle
  imports Complex_Main
begin

section \<open>Python values and errors\<close>

text \<open>
  The exceptions that the wrappers of \<^verbatim>\<open>keras/backend/torch/nn.py\<close> raise themselves or
  that Python raises on their behalf (an index out of range, a division by zero), and the
  errors of the tensor engine. The text of a message is kept up to its first dynamic part.
\<close>

datatype error =
    ValueError string
  | NotImplementedError string
  | IndexError
  | ZeroDivisionError
  | RuntimeError string

section \<open>Padding computation\<close>

text \<open>
  \<^verbatim>\<open>_compute_padding_length(input_length, kernel_length, stride, dilation_rate=1)\<close>.
  Python's \<^verbatim>\<open>//\<close> and \<^verbatim>\<open>%\<close> round towards minus infinity, as \<open>div\<close> and \<open>mod\<close> on
  \<open>int\<close> do; \<^verbatim>\<open>% 0\<close> raises.
\<close>

definition compute_padding_length :: "int \<Rightarrow> int \<Rightarrow> int \<Rightarrow> int \<Rightarrow> error + int \<times> int" where
  "compute_padding_length input_length kernel_length stride dilation_rate =
     (if stride = 0 then Inl ZeroDivisionError
      else
        let total_padding_length =
              dilation_rate * (kernel_length - 1) - (input_length - 1) mod stride;
            left_padding = total_padding_length div 2;
            right_padding = (total_padding_length + 1) div 2
        in Inr (left_padding, right_padding))"

section \<open>Python sequences\<close>

text \<open>
  \<^verbatim>\<open>xs[i]\<close> on a tuple, a list or a \<^verbatim>\<open>torch.Size\<close>: a negative index counts from the
  end, an index out of range raises \<^verbatim>\<open>IndexError\<close>.
\<close>

definition py_position :: "nat \<Rightarrow> int \<Rightarrow> nat option" where
  "py_position len i =
     (if 0 \<le> i \<and> i < int len then Some (nat i)
      else if i < 0 \<and> - int len \<le> i then Some (nat (int len + i))
      else None)"

definition py_index :: "'b list \<Rightarrow> int \<Rightarrow> error + 'b" where
  "py_index xs i =
     (case py_position (length xs) i of None \<Rightarrow> Inl IndexError | Some k \<Rightarrow> Inr (xs ! k))"

text \<open>\<^verbatim>\<open>xs[i] = v\<close> on a list.\<close>

definition py_setitem :: "'b list \<Rightarrow> int \<Rightarrow> 'b \<Rightarrow> error + 'b list" where
  "py_setitem xs i v =
     (case py_position (length xs) i of
        None \<Rightarrow> Inl IndexError
      | Some k \<Rightarrow> Inr (xs[k := v]))"

text \<open>Sequencing of computations that may raise: the first exception wins.\<close>

definition bind_err :: "error + 'b \<Rightarrow> ('b \<Rightarrow> error + 'c) \<Rightarrow> error + 'c" where
  "bind_err m f = (case m of Inl e \<Rightarrow> Inl e | Inr v \<Rightarrow> f v)"

fun collect :: "(error + 'b) list \<Rightarrow> error + 'b list" where
  "collect [] = Inr []"
| "collect (m # ms) =
     (case m of
        Inl e \<Rightarrow> Inl e
      | Inr v \<Rightarrow> (case collect ms of Inl e \<Rightarrow> Inl e | Inr vs \<Rightarrow> Inr (v # vs)))"

section \<open>Tensors of the engine\<close>

text \<open>
  A tensor of the engine is a view on a flat storage: every axis has a size and a stride,
  and the element at a multi-index is read at the sum of index times stride. The module
  never slices, so the storage offset is always zero and is left out.
\<close>

record 'a tensor =
  axes :: "(nat \<times> nat) list"
  storage :: "'a list"

definition shape :: "'a tensor \<Rightarrow> nat list" where
  "shape t = map fst (axes t)"

definition strides_of :: "'a tensor \<Rightarrow> nat list" where
  "strides_of t = map snd (axes t)"

definition ndim :: "'a tensor \<Rightarrow> nat" where
  "ndim t = length (axes t)"

definition numel :: "'a tensor \<Rightarrow> nat" where
  "numel t = prod_list (shape t)"

text \<open>All multi-indices of a shape, in row-major order (the last axis moves fastest).\<close>

fun indices :: "nat list \<Rightarrow> nat list list" where
  "indices [] = [[]]"
| "indices (n # ns) = concat (map (\<lambda>i. map ((#) i) (indices ns)) [0..<n])"

definition flat_index :: "nat list \<Rightarrow> nat list \<Rightarrow> nat" where
  "flat_index idx strs = sum_list (map2 (*) idx strs)"

definition elem :: "'a tensor \<Rightarrow> nat list \<Rightarrow> 'a" where
  "elem t idx = storage t ! flat_index idx (strides_of t)"

text \<open>The elements of a tensor in row-major order, whatever its strides.\<close>

definition elements :: "'a tensor \<Rightarrow> 'a list" where
  "elements t = map (elem t) (indices (shape t))"

fun contiguous_strides :: "nat list \<Rightarrow> nat list" where
  "contiguous_strides [] = []"
| "contiguous_strides (n # ns) = prod_list ns # contiguous_strides ns"

text \<open>A freshly allocated tensor: row-major strides over its own storage.\<close>

definition contiguous :: "nat list \<Rightarrow> 'a list \<Rightarrow> 'a tensor" where
  "contiguous shp xs = \<lparr>axes = zip shp (contiguous_strides shp), storage = xs\<rparr>"

text \<open>
  A dimension argument of the engine: \<open>-n .. n-1\<close> for a tensor of \<open>n\<close> axes, the negative
  ones counting from the end.
\<close>

definition normalize_dim :: "nat \<Rightarrow> int \<Rightarrow> error + nat" where
  "normalize_dim n d =
     (if - int n \<le> d \<and> d < int n then Inr (nat (if d < 0 then d + int n else d))
      else Inl IndexError)"

text \<open>
  \<^verbatim>\<open>torch.permute(t, dims)\<close>: a view with the axes rearranged; the storage is shared.
  The engine rejects a wrong number of dimensions, a dimension out of range and a
  repeated dimension.
\<close>

definition permute :: "'a tensor \<Rightarrow> int list \<Rightarrow> error + 'a tensor" where
  "permute t ds =
     (if length ds \<noteq> ndim t
      then Inl (RuntimeError ''permute: number of dims does not match'')
      else case collect (map (normalize_dim (ndim t)) ds) of
             Inl e \<Rightarrow> Inl e
           | Inr ps \<Rightarrow>
               if distinct ps then Inr (t\<lparr>axes := map (\<lambda>p. axes t ! p) ps\<rparr>)
               else Inl (RuntimeError ''permute: repeated dim''))"

text \<open>
  \<^verbatim>\<open>torch.reshape(t, shape)\<close>: the same elements in row-major order under a new shape.
  One entry of the shape may be \<open>-1\<close> and is inferred from the number of elements.
\<close>

definition reshape :: "'a tensor \<Rightarrow> int list \<Rightarrow> error + 'a tensor" where
  "reshape t shp =
     (let n = int (numel t);
          inferred = length (filter (\<lambda>d. d = - 1) shp);
          known = prod_list (filter (\<lambda>d. d \<noteq> - 1) shp)
      in if list_ex (\<lambda>d. d < - 1) shp then Inl (RuntimeError ''invalid shape dimension'')
         else if inferred > 1 then Inl (RuntimeError ''only one dimension can be inferred'')
         else if inferred = 1 then
           (if known = 0 \<or> n mod known \<noteq> 0
            then Inl (RuntimeError ''shape is invalid for input size'')
            else Inr (contiguous (map (\<lambda>d. nat (if d = - 1 then n div known else d)) shp)
                        (elements t)))
         else if known \<noteq> n then Inl (RuntimeError ''shape is invalid for input size'')
         else Inr (contiguous (map nat shp) (elements t)))"

section \<open>Layout transposition helpers\<close>

text \<open>\<^verbatim>\<open>_transpose_spatial_inputs(inputs)\<close>: channels-last to channels-first.\<close>

definition transpose_spatial_inputs :: "'a tensor \<Rightarrow> error + 'a tensor" where
  "transpose_spatial_inputs inputs =
     (let num_spatial_dims = int (ndim inputs) - 2 in
      if num_spatial_dims = 1 then permute inputs [0, 2, 1]
      else if num_spatial_dims = 2 then permute inputs [0, 3, 1, 2]
      else if num_spatial_dims = 3 then permute inputs [0, 4, 1, 2, 3]
      else Inl (ValueError
        ''Inputs must have ndim=3, 4 or 5, corresponding to 1D, 2D and 3D inputs.''))"

text \<open>\<^verbatim>\<open>_transpose_spatial_outputs(outputs)\<close>: undoes the transposition; no \<^verbatim>\<open>else\<close>.\<close>

definition transpose_spatial_outputs :: "'a tensor \<Rightarrow> error + 'a tensor" where
  "transpose_spatial_outputs outputs =
     (let num_spatial_dims = int (length (shape outputs)) - 2 in
      if num_spatial_dims = 1 then permute outputs [0, 2, 1]
      else if num_spatial_dims = 2 then permute outputs [0, 2, 3, 1]
      else if num_spatial_dims = 3 then permute outputs [0, 2, 3, 4, 1]
      else Inr outputs)"

text \<open>
  \<^verbatim>\<open>_transpose_conv_kernel(kernel)\<close>: from \<open>(spatial..., in, out)\<close> to
  \<open>(out, in, spatial...)\<close>.
\<close>

definition transpose_conv_kernel :: "'a tensor \<Rightarrow> error + 'a tensor" where
  "transpose_conv_kernel kernel_t =
     (let num_spatial_dims = int (length (shape kernel_t)) - 2 in
      if num_spatial_dims = 1 then permute kernel_t [2, 1, 0]
      else if num_spatial_dims = 2 then permute kernel_t [3, 2, 0, 1]
      else if num_spatial_dims = 3 then permute kernel_t [4, 3, 0, 1, 2]
      else Inr kernel_t)"

section \<open>Arguments of the wrappers\<close>

text \<open>A size argument of the public functions: one integer, or a sequence of integers.\<close>

datatype arg = IntArg int | SeqArg "int list"

text \<open>
  Modelled from the spec: \<^verbatim>\<open>standardize_tuple\<close> of \<^verbatim>\<open>keras.utils.argument_validation\<close>
  is not part of the sources at hand. The spec describes it as producing a fixed-length
  tuple from a scalar or a sequence and raising a value error on a bad length. A scalar is
  repeated \<open>n\<close> times, which in Python is the empty tuple when \<open>n\<close> is not positive.
\<close>

definition standardize_tuple :: "arg \<Rightarrow> int \<Rightarrow> string \<Rightarrow> error + int list" where
  "standardize_tuple v n name =
     (case v of
        IntArg k \<Rightarrow> Inr (replicate (nat n) k)
      | SeqArg ks \<Rightarrow>
          if int (length ks) = n then Inr ks
          else Inl (ValueError (''The argument must be a tuple of integers: '' @ name)))"

text \<open>
  Modelled from the spec: \<^verbatim>\<open>standardize_data_format\<close> of \<^verbatim>\<open>keras.backend\<close> is not part
  of the sources at hand. The spec: \<^verbatim>\<open>None\<close> gives the process-wide default, any other
  value is validated against \<^verbatim>\<open>channels_first\<close> and \<^verbatim>\<open>channels_last\<close>. The default is
  a parameter of every wrapper.
\<close>

definition standardize_data_format :: "string \<Rightarrow> string option \<Rightarrow> error + string" where
  "standardize_data_format default_format data_format =
     (case data_format of
        None \<Rightarrow> Inr default_format
      | Some f \<Rightarrow>
          if f = ''channels_first'' \<or> f = ''channels_last'' then Inr f
          else Inl (ValueError ''The data_format argument must be channels_first or channels_last''))"

text \<open>
  The \<^verbatim>\<open>padding\<close> argument handed to a primitive of the engine: the string of the caller,
  one integer, or one integer for each spatial axis.
\<close>

datatype padding_arg = PadStr string | PadInt int | PadList "int list"

section \<open>Same padding\<close>

text \<open>
  The loop of \<^verbatim>\<open>_apply_same_padding\<close> over \<^verbatim>\<open>range(num_spatial_dims)\<close>. Its state is the
  rebound \<^verbatim>\<open>dilation_rate\<close>, the \<^verbatim>\<open>mode\<close> and the tuple \<^verbatim>\<open>padding\<close>, to which every
  round prepends its pair. The arguments of \<^verbatim>\<open>_compute_padding_length\<close> are evaluated
  from left to right.
\<close>

fun apply_same_padding_loop ::
  "int list \<Rightarrow> int list \<Rightarrow> int list \<Rightarrow> string \<Rightarrow> int \<Rightarrow> int list \<Rightarrow>
   arg \<Rightarrow> string \<Rightarrow> (int \<times> int) list \<Rightarrow> error + string \<times> (int \<times> int) list" where
  "apply_same_padding_loop spatial_shape kernel_size strides operation_type num_spatial_dims
     [] dilation_rate mode padding = Inr (mode, padding)"
| "apply_same_padding_loop spatial_shape kernel_size strides operation_type num_spatial_dims
     (i # rest) dilation_rate mode padding =
     (if operation_type = ''pooling'' then
        (case py_index spatial_shape i of Inl e \<Rightarrow> Inl e | Inr input_length \<Rightarrow>
         case py_index kernel_size i of Inl e \<Rightarrow> Inl e | Inr kernel_length \<Rightarrow>
         case py_index strides i of Inl e \<Rightarrow> Inl e | Inr stride \<Rightarrow>
         case compute_padding_length input_length kernel_length stride 1 of
           Inl e \<Rightarrow> Inl e
         | Inr padding_size \<Rightarrow>
             apply_same_padding_loop spatial_shape kernel_size strides operation_type
               num_spatial_dims rest dilation_rate ''replicate'' (padding_size # padding))
      else
        (case standardize_tuple dilation_rate num_spatial_dims ''dilation_rate'' of
           Inl e \<Rightarrow> Inl e
         | Inr dilation \<Rightarrow>
         case py_index spatial_shape i of Inl e \<Rightarrow> Inl e | Inr input_length \<Rightarrow>
         case py_index kernel_size i of Inl e \<Rightarrow> Inl e | Inr kernel_length \<Rightarrow>
         case py_index strides i of Inl e \<Rightarrow> Inl e | Inr stride \<Rightarrow>
         case py_index dilation i of Inl e \<Rightarrow> Inl e | Inr d \<Rightarrow>
         case compute_padding_length input_length kernel_length stride d of
           Inl e \<Rightarrow> Inl e
         | Inr padding_size \<Rightarrow>
             apply_same_padding_loop spatial_shape kernel_size strides operation_type
               num_spatial_dims rest (SeqArg dilation) ''constant'' (padding_size # padding)))"

text \<open>
  \<^verbatim>\<open>tnn.pad(inputs, pad=..., mode=...)\<close> is a primitive of the engine, and a parameter of
  the model: it returns the padded tensor or raises. Nothing is assumed about it here.
\<close>

type_synonym 'a pad_primitive = "'a tensor \<Rightarrow> int list \<Rightarrow> string \<Rightarrow> error + 'a tensor"

text \<open>
  \<^verbatim>\<open>_apply_same_padding(inputs, kernel_size, strides, operation_type, dilation_rate)\<close>:
  the inputs themselves and one padding for each spatial axis when every pair is
  symmetric, and otherwise the tensor padded by \<^verbatim>\<open>tnn.pad\<close> and the padding 0.
\<close>

definition apply_same_padding ::
  "'a pad_primitive \<Rightarrow> 'a tensor \<Rightarrow> int list \<Rightarrow> int list \<Rightarrow> string \<Rightarrow> arg \<Rightarrow>
   error + 'a tensor \<times> padding_arg" where
  "apply_same_padding tnn_pad inputs kernel_size strides operation_type dilation_rate =
     (let spatial_shape = map int (drop 2 (shape inputs));
          num_spatial_dims = length spatial_shape
      in case apply_same_padding_loop spatial_shape kernel_size strides operation_type
                (int num_spatial_dims) (map int [0..<num_spatial_dims]) dilation_rate [] [] of
           Inl e \<Rightarrow> Inl e
         | Inr (mode, padding) \<Rightarrow>
             if list_all (\<lambda>(left, right). left = right) padding
             then Inr (inputs, PadList (map fst padding))
             else bind_err (tnn_pad inputs
                              (concat (map (\<lambda>(left, right). [left, right]) padding)) mode)
                    (\<lambda>padded. Inr (padded, PadInt 0)))"

section \<open>Pooling\<close>

text \<open>
  A wrapper ends in one call of a primitive of the engine. The model of a wrapper is
  split at that call: \<open>max_pool_call\<close> and \<open>average_pool_call\<close> compute everything the
  source does before the call, \<^verbatim>\<open>tnn.pad\<close> included, and return either the exception
  raised on the way or the call itself: the primitive, the tensor it receives, the
  remaining arguments, and whether \<^verbatim>\<open>_transpose_spatial_outputs\<close> is applied to the
  result.
\<close>

record 'a pool_call =
  pool_primitive :: string
  pool_input :: "'a tensor"
  pool_kernel_size :: "int list"
  pool_stride :: "int list"
  pool_padding :: padding_arg
  pool_cpu_buffer :: bool
  pool_restore_layout :: bool

text \<open>
  \<^verbatim>\<open>max_pool(inputs, pool_size, strides=None, padding="valid", data_format=None)\<close>.
  \<open>device\<close> is the result of \<^verbatim>\<open>get_device()\<close>; on the device \<^verbatim>\<open>meta\<close> the primitive runs
  on an empty buffer of the same shape.
\<close>

definition max_pool_call ::
  "'a pad_primitive \<Rightarrow> string \<Rightarrow> string \<Rightarrow> 'a tensor \<Rightarrow> arg \<Rightarrow> arg option \<Rightarrow> string \<Rightarrow>
   string option \<Rightarrow> error + 'a pool_call" where
  "max_pool_call tnn_pad default_format device inputs pool_size strides padding data_format =
     (let num_spatial_dims = int (ndim inputs) - 2 in
      bind_err (standardize_tuple pool_size num_spatial_dims ''pool_size'') (\<lambda>pool_size.
      bind_err (case strides of
                  None \<Rightarrow> Inr pool_size
                | Some s \<Rightarrow> standardize_tuple s num_spatial_dims ''strides'') (\<lambda>strides.
      bind_err (standardize_data_format default_format data_format) (\<lambda>data_format.
      bind_err (if data_format = ''channels_last'' then transpose_spatial_inputs inputs
                else Inr inputs) (\<lambda>inputs.
      bind_err (if padding = ''same''
                then apply_same_padding tnn_pad inputs pool_size strides ''pooling'' (IntArg 1)
                else Inr (inputs, PadInt 0)) (\<lambda>(inputs, padding).
      let call = (\<lambda>name. Inr \<lparr>pool_primitive = name, pool_input = inputs,
                    pool_kernel_size = pool_size,
                    pool_stride = strides, pool_padding = padding,
                    pool_cpu_buffer = (device = ''meta''),
                    pool_restore_layout = (data_format = ''channels_last'')\<rparr>)
      in if num_spatial_dims = 1 then call ''max_pool1d''
         else if num_spatial_dims = 2 then call ''max_pool2d''
         else if num_spatial_dims = 3 then call ''max_pool3d''
         else Inl (ValueError
           ''Inputs to pooling op must have ndim=3, 4 or 5, corresponding to 1D, 2D and 3D inputs.'')))))))"

text \<open>
  The loop of \<^verbatim>\<open>average_pool\<close> under \<^verbatim>\<open>padding == "same"\<close>: \<^verbatim>\<open>padding_value\<close> collects the
  left padding of every axis, \<^verbatim>\<open>uneven_padding\<close> grows by \<^verbatim>\<open>[0, 1]\<close> at its front for every
  axis whose two paddings differ.
\<close>

fun average_pool_loop ::
  "int list \<Rightarrow> int list \<Rightarrow> int list \<Rightarrow> int list \<Rightarrow> int list \<Rightarrow> int list \<Rightarrow>
   error + int list \<times> int list" where
  "average_pool_loop spatial_shape pool_size strides [] padding_value uneven_padding =
     Inr (padding_value, uneven_padding)"
| "average_pool_loop spatial_shape pool_size strides (i # rest) padding_value uneven_padding =
     (case py_index spatial_shape i of Inl e \<Rightarrow> Inl e | Inr input_length \<Rightarrow>
      case py_index pool_size i of Inl e \<Rightarrow> Inl e | Inr kernel_length \<Rightarrow>
      case py_index strides i of Inl e \<Rightarrow> Inl e | Inr stride \<Rightarrow>
      case compute_padding_length input_length kernel_length stride 1 of
        Inl e \<Rightarrow> Inl e
      | Inr padding_size \<Rightarrow>
          average_pool_loop spatial_shape pool_size strides rest
            (padding_value @ [fst padding_size])
            (if fst padding_size \<noteq> snd padding_size then [0, 1] @ uneven_padding
             else uneven_padding))"

text \<open>
  \<^verbatim>\<open>average_pool(inputs, pool_size, strides=None, padding="valid", data_format=None)\<close>.
  \<^verbatim>\<open>tnn.pad(inputs, uneven_padding)\<close> has the default mode \<^verbatim>\<open>constant\<close> with value 0.
\<close>

definition average_pool_call ::
  "'a pad_primitive \<Rightarrow> string \<Rightarrow> 'a tensor \<Rightarrow> arg \<Rightarrow> arg option \<Rightarrow> string \<Rightarrow> string option \<Rightarrow>
   error + 'a pool_call" where
  "average_pool_call tnn_pad default_format inputs pool_size strides padding data_format =
     (let num_spatial_dims = int (ndim inputs) - 2 in
      bind_err (standardize_tuple pool_size num_spatial_dims ''pool_size'') (\<lambda>pool_size.
      bind_err (case strides of
                  None \<Rightarrow> Inr pool_size
                | Some s \<Rightarrow> standardize_tuple s num_spatial_dims ''strides'') (\<lambda>strides.
      bind_err (standardize_data_format default_format data_format) (\<lambda>data_format.
      bind_err (if data_format = ''channels_last'' then transpose_spatial_inputs inputs
                else Inr inputs) (\<lambda>inputs.
      bind_err (if padding = ''same'' then
                  (let spatial_shape = map int (drop 2 (shape inputs));
                       n = length spatial_shape
                   in bind_err (average_pool_loop spatial_shape pool_size strides
                                  (map int [0..<n]) [] [])
                        (\<lambda>(padding_value, uneven_padding).
                      bind_err (if length uneven_padding > 0
                                then tnn_pad inputs uneven_padding ''constant''
                                else Inr inputs) (\<lambda>inputs.
                      Inr (int n, PadList padding_value, inputs))))
                else Inr (num_spatial_dims, PadInt 0, inputs))
        (\<lambda>(num_spatial_dims, padding_value, inputs).
      let call = (\<lambda>name. Inr \<lparr>pool_primitive = name, pool_input = inputs,
                    pool_kernel_size = pool_size,
                    pool_stride = strides, pool_padding = padding_value,
                    pool_cpu_buffer = False,
                    pool_restore_layout = (data_format = ''channels_last'')\<rparr>)
      in if num_spatial_dims = 1 then call ''avg_pool1d''
         else if num_spatial_dims = 2 then call ''avg_pool2d''
         else if num_spatial_dims = 3 then call ''avg_pool3d''
         else Inl (ValueError
           ''Inputs to pooling op must have ndim=3, 4 or 5, corresponding to 1D, 2D and 3D inputs.'')))))))"

text \<open>
  The rest of \<^verbatim>\<open>max_pool\<close> and \<^verbatim>\<open>average_pool\<close>: the engine, a parameter, runs the call,
  and the result goes back to the layout of the caller. Moving the result of \<^verbatim>\<open>max_pool\<close>
  back to the device leaves its value as it is.
\<close>

definition max_pool ::
  "'a pad_primitive \<Rightarrow> ('a pool_call \<Rightarrow> error + 'a tensor) \<Rightarrow> string \<Rightarrow> string \<Rightarrow> 'a tensor \<Rightarrow>
   arg \<Rightarrow> arg option \<Rightarrow> string \<Rightarrow> string option \<Rightarrow> error + 'a tensor" where
  "max_pool tnn_pad native default_format device inputs pool_size strides padding data_format =
     bind_err (max_pool_call tnn_pad default_format device inputs pool_size strides padding
                 data_format) (\<lambda>call.
     bind_err (native call) (\<lambda>outputs.
     if pool_restore_layout call then transpose_spatial_outputs outputs else Inr outputs))"

definition average_pool ::
  "'a pad_primitive \<Rightarrow> ('a pool_call \<Rightarrow> error + 'a tensor) \<Rightarrow> string \<Rightarrow> 'a tensor \<Rightarrow> arg \<Rightarrow>
   arg option \<Rightarrow> string \<Rightarrow> string option \<Rightarrow> error + 'a tensor" where
  "average_pool tnn_pad native default_format inputs pool_size strides padding data_format =
     bind_err (average_pool_call tnn_pad default_format inputs pool_size strides padding
                 data_format) (\<lambda>call.
     bind_err (native call) (\<lambda>outputs.
     if pool_restore_layout call then transpose_spatial_outputs outputs else Inr outputs))"

section \<open>Convolution\<close>

record 'a conv_call =
  conv_primitive :: string
  conv_input :: "'a tensor"
  conv_kernel :: "'a tensor"
  conv_stride :: "int list"
  conv_dilation :: arg
  conv_groups :: int
  conv_padding :: padding_arg
  conv_restore_layout :: bool

text \<open>
  \<^verbatim>\<open>conv(inputs, kernel, strides=1, padding="valid", data_format=None, dilation_rate=1)\<close>
  up to the call of \<^verbatim>\<open>tnn.conv1d\<close>, \<^verbatim>\<open>tnn.conv2d\<close> or \<^verbatim>\<open>tnn.conv3d\<close>.
  \<^verbatim>\<open>tree.flatten(strides)\<close> is the list of the entries of the tuple.
  \<^verbatim>\<open>_apply_same_padding\<close>, and with it \<^verbatim>\<open>tnn.pad\<close>, runs before the channel check, and
  \<^verbatim>\<open>inputs.shape[1]\<close> is read from the tensor it returns. \<^verbatim>\<open>a % 0\<close> raises.
\<close>

definition conv_call ::
  "'a pad_primitive \<Rightarrow> string \<Rightarrow> 'a tensor \<Rightarrow> 'a tensor \<Rightarrow> arg \<Rightarrow> string \<Rightarrow> string option \<Rightarrow>
   arg \<Rightarrow> error + 'a conv_call" where
  "conv_call tnn_pad default_format inputs kernel_t strides padding data_format dilation_rate =
     (let num_spatial_dims = int (ndim inputs) - 2 in
      bind_err (standardize_tuple strides num_spatial_dims ''strides'') (\<lambda>strides.
      bind_err (standardize_data_format default_format data_format) (\<lambda>data_format.
      bind_err (if data_format = ''channels_last'' then transpose_spatial_inputs inputs
                else Inr inputs) (\<lambda>inputs.
      bind_err (transpose_conv_kernel kernel_t) (\<lambda>kernel_t.
      bind_err (if padding = ''same'' \<and> list_ex (\<lambda>d. d \<noteq> 1) strides
                then apply_same_padding tnn_pad inputs (map int (drop 2 (shape kernel_t)))
                       strides ''conv'' dilation_rate
                else Inr (inputs, PadStr padding)) (\<lambda>(inputs, padding).
      bind_err (py_index (shape inputs) 1) (\<lambda>channels.
      bind_err (py_index (shape kernel_t) 1) (\<lambda>kernel_in_channels.
      if kernel_in_channels = 0 then Inl ZeroDivisionError
      else if int channels mod int kernel_in_channels > 0 then
        Inl (ValueError
          ''The number of input channels must be evenly divisible by kernel.shape[1].'')
      else
        let groups = int channels div int kernel_in_channels;
            call = (\<lambda>name. Inr \<lparr>conv_primitive = name, conv_input = inputs,
                      conv_kernel = kernel_t,
                      conv_stride = strides, conv_dilation = dilation_rate,
                      conv_groups = groups, conv_padding = padding,
                      conv_restore_layout = (data_format = ''channels_last'')\<rparr>)
        in if num_spatial_dims = 1 then call ''conv1d''
           else if num_spatial_dims = 2 then call ''conv2d''
           else if num_spatial_dims = 3 then call ''conv3d''
           else Inl (ValueError
             ''Inputs to conv operation should have ndim=3, 4, or 5,corresponding to 1D, 2D and 3D inputs.'')))))))))"

text \<open>
  The rest of \<^verbatim>\<open>conv\<close>: the engine runs the call, and the result goes back to the layout
  of the caller. The engine is a parameter.
\<close>

definition conv ::
  "'a pad_primitive \<Rightarrow> ('a conv_call \<Rightarrow> error + 'a tensor) \<Rightarrow> string \<Rightarrow> 'a tensor \<Rightarrow>
   'a tensor \<Rightarrow> arg \<Rightarrow> string \<Rightarrow> string option \<Rightarrow> arg \<Rightarrow> error + 'a tensor" where
  "conv tnn_pad native default_format inputs kernel_t strides padding data_format
     dilation_rate =
     bind_err (conv_call tnn_pad default_format inputs kernel_t strides padding data_format
                 dilation_rate) (\<lambda>call.
     bind_err (native call) (\<lambda>outputs.
     if conv_restore_layout call then transpose_spatial_outputs outputs else Inr outputs))"

text \<open>
  \<^verbatim>\<open>depthwise_conv\<close>: the kernel is reshaped to
  \<^verbatim>\<open>kernel.shape[:-2] + (1, kernel.shape[-2] * kernel.shape[-1])\<close> and handed to \<^verbatim>\<open>conv\<close>.
\<close>

definition depthwise_conv ::
  "'a pad_primitive \<Rightarrow> ('a conv_call \<Rightarrow> error + 'a tensor) \<Rightarrow> string \<Rightarrow> 'a tensor \<Rightarrow>
   'a tensor \<Rightarrow> arg \<Rightarrow> string \<Rightarrow> string option \<Rightarrow> arg \<Rightarrow> error + 'a tensor" where
  "depthwise_conv tnn_pad native default_format inputs kernel_t strides padding data_format
     dilation_rate =
     (let shp = shape kernel_t in
      bind_err (py_index shp (- 2)) (\<lambda>in_channels.
      bind_err (py_index shp (- 1)) (\<lambda>multiplier.
      bind_err (reshape kernel_t
                  (map int (take (length shp - 2) shp) @ [1, int in_channels * int multiplier]))
        (\<lambda>kernel_t.
      conv tnn_pad native default_format inputs kernel_t strides padding data_format
        dilation_rate))))"

text \<open>\<^verbatim>\<open>separable_conv\<close>: \<^verbatim>\<open>depthwise_conv\<close>, then a pointwise \<^verbatim>\<open>conv\<close>.\<close>

definition separable_conv ::
  "'a pad_primitive \<Rightarrow> ('a conv_call \<Rightarrow> error + 'a tensor) \<Rightarrow> string \<Rightarrow> 'a tensor \<Rightarrow>
   'a tensor \<Rightarrow> 'a tensor \<Rightarrow> arg \<Rightarrow> string \<Rightarrow> string option \<Rightarrow> arg \<Rightarrow> error + 'a tensor" where
  "separable_conv tnn_pad native default_format inputs depthwise_kernel pointwise_kernel
     strides padding data_format dilation_rate =
     bind_err (depthwise_conv tnn_pad native default_format inputs depthwise_kernel strides
                 padding data_format dilation_rate) (\<lambda>depthwise_conv_output.
     conv tnn_pad native default_format depthwise_conv_output pointwise_kernel (IntArg 1)
       ''valid'' data_format dilation_rate)"

section \<open>Normalized exponential functions and cross-entropy\<close>

text \<open>
  The numeric primitives of the engine are parameters: the wrappers only compose them.
  Each may raise.
\<close>

record 'a engine =
  tnn_softmax :: "'a tensor \<Rightarrow> int \<Rightarrow> error + 'a tensor"
  tnn_log_softmax :: "'a tensor \<Rightarrow> int \<Rightarrow> error + 'a tensor"
  torch_sum :: "'a tensor \<Rightarrow> int \<Rightarrow> bool \<Rightarrow> error + 'a tensor"
  torch_clip :: "'a tensor \<Rightarrow> 'a \<Rightarrow> 'a \<Rightarrow> error + 'a tensor"
  torch_log :: "'a tensor \<Rightarrow> error + 'a tensor"
  tensor_div :: "'a tensor \<Rightarrow> 'a tensor \<Rightarrow> error + 'a tensor"
  tensor_mul :: "'a tensor \<Rightarrow> 'a tensor \<Rightarrow> error + 'a tensor"
  tensor_neg :: "'a tensor \<Rightarrow> error + 'a tensor"

text \<open>\<^verbatim>\<open>softmax(x, axis=-1)\<close>; \<open>None\<close> is \<^verbatim>\<open>axis=None\<close>.\<close>

definition softmax :: "'a engine \<Rightarrow> 'a tensor \<Rightarrow> int option \<Rightarrow> error + 'a tensor" where
  "softmax E x axis =
     (case axis of
        None \<Rightarrow>
          bind_err (reshape x [- 1]) (\<lambda>output.
          bind_err (tnn_softmax E output (- 1)) (\<lambda>output.
          reshape output (map int (shape x))))
      | Some a \<Rightarrow> tnn_softmax E x a)"

text \<open>\<^verbatim>\<open>log_softmax(x, axis=-1)\<close>.\<close>

definition log_softmax :: "'a engine \<Rightarrow> 'a tensor \<Rightarrow> int option \<Rightarrow> error + 'a tensor" where
  "log_softmax E x axis =
     (case axis of
        None \<Rightarrow>
          bind_err (reshape x [- 1]) (\<lambda>output.
          bind_err (tnn_log_softmax E output (- 1)) (\<lambda>output.
          reshape output (map int (shape x))))
      | Some a \<Rightarrow> tnn_log_softmax E x a)"

text \<open>
  \<^verbatim>\<open>categorical_crossentropy(target, output, from_logits=False, axis=-1)\<close>. \<open>eps\<close> is the
  value of \<^verbatim>\<open>epsilon()\<close> of the configuration.
\<close>

definition categorical_crossentropy ::
  "('a::{one,minus}) engine \<Rightarrow> 'a \<Rightarrow> 'a tensor \<Rightarrow> 'a tensor \<Rightarrow> bool \<Rightarrow> int \<Rightarrow>
   error + 'a tensor" where
  "categorical_crossentropy E eps target output from_logits axis =
     (if shape target \<noteq> shape output then
        Inl (ValueError ''Arguments `target` and `output` must have the same shape.'')
      else if length (shape target) < 1 then
        Inl (ValueError ''Arguments `target` and `output` must be at least rank 1.'')
      else
        bind_err (if from_logits then tnn_log_softmax E output axis
                  else bind_err (torch_sum E output axis True) (\<lambda>total.
                       bind_err (tensor_div E output total) (\<lambda>output.
                       bind_err (torch_clip E output eps (1 - eps)) (\<lambda>output.
                       torch_log E output)))) (\<lambda>log_prob.
        bind_err (tensor_mul E target log_prob) (\<lambda>weighted.
        bind_err (torch_sum E weighted axis False) (\<lambda>total.
        tensor_neg E total))))"

section \<open>One-hot encoding\<close>

text \<open>
  \<^verbatim>\<open>tnn.one_hot(t, num_classes)\<close>, the primitive of the engine, on an index tensor: it
  rejects a negative class value and a class value that is not smaller than
  \<^verbatim>\<open>num_classes\<close>; \<^verbatim>\<open>num_classes = -1\<close> asks for one more than the greatest value. The
  result has one more axis, of length \<^verbatim>\<open>num_classes\<close>.
\<close>

definition tnn_one_hot :: "int tensor \<Rightarrow> int \<Rightarrow> error + int tensor" where
  "tnn_one_hot t num_classes =
     (let vals = elements t in
      if vals = [] then
        (if num_classes \<le> 0
         then Inl (RuntimeError ''Can not infer total number of classes from empty tensor.'')
         else Inr (contiguous (shape t @ [nat num_classes]) []))
      else if list_ex (\<lambda>v. v < 0) vals then
        Inl (RuntimeError ''Class values must be non-negative.'')
      else if num_classes \<noteq> - 1 \<and> list_ex (\<lambda>v. num_classes \<le> v) vals then
        Inl (RuntimeError ''Class values must be smaller than num_classes.'')
      else
        let classes = nat (if num_classes = - 1 then fold max vals 0 + 1 else num_classes)
        in Inr (contiguous (shape t @ [classes])
                  (concat (map (\<lambda>v. map (\<lambda>j. if int j = v then 1 else 0) [0..<classes])
                             vals))))"

text \<open>
  Modelled from the spec: \<^verbatim>\<open>maximum\<close> of \<^verbatim>\<open>keras.backend.torch.numpy\<close> is not part of the
  sources at hand. \<^verbatim>\<open>maximum(x, 0)\<close> clamps the negative entries to 0.
\<close>

definition maximum :: "int tensor \<Rightarrow> int \<Rightarrow> int tensor" where
  "maximum x c = contiguous (shape x) (map (\<lambda>v. max v c) (elements x))"

text \<open>
  Modelled from the spec: \<^verbatim>\<open>expand_dims\<close> of \<^verbatim>\<open>keras.backend.torch.numpy\<close> is not part of
  the sources at hand. It inserts an axis of length 1 at the given position, counted from
  the end when negative; the view shares the storage.
\<close>

definition expand_dims :: "'a tensor \<Rightarrow> int \<Rightarrow> error + 'a tensor" where
  "expand_dims x axis =
     (let n = int (ndim x) in
      if - n - 1 \<le> axis \<and> axis \<le> n then
        let p = nat (if axis < 0 then axis + n + 1 else axis)
        in Inr (x\<lparr>axes := take p (axes x) @ [(1, 1)] @ drop p (axes x)\<rparr>)
      else Inl IndexError)"

text \<open>The comparison \<^verbatim>\<open>t >= c\<close> of a tensor with a number, element by element.\<close>

definition greater_equal :: "int tensor \<Rightarrow> int \<Rightarrow> bool tensor" where
  "greater_equal t c = contiguous (shape t) (map (\<lambda>v. c \<le> v) (elements t))"

text \<open>
  Broadcasting of the engine: two shapes are aligned at their last axes; the lengths of
  an axis must agree or one of them is 1; a missing axis counts as 1. A tensor is
  expanded to the common shape by reading an axis of length 1 with stride 0.
\<close>

fun broadcast_rev :: "nat list \<Rightarrow> nat list \<Rightarrow> error + nat list" where
  "broadcast_rev [] ys = Inr ys"
| "broadcast_rev (x # xs) [] = Inr (x # xs)"
| "broadcast_rev (x # xs) (y # ys) =
     (if x = y \<or> x = 1 \<or> y = 1 then
        (case broadcast_rev xs ys of
           Inl e \<Rightarrow> Inl e
         | Inr zs \<Rightarrow> Inr ((if x = 1 then y else x) # zs))
      else Inl (RuntimeError ''The size of the tensors must match at a non-singleton dimension''))"

definition broadcast_shapes :: "nat list \<Rightarrow> nat list \<Rightarrow> error + nat list" where
  "broadcast_shapes xs ys =
     (case broadcast_rev (rev xs) (rev ys) of Inl e \<Rightarrow> Inl e | Inr zs \<Rightarrow> Inr (rev zs))"

fun expand_rev :: "(nat \<times> nat) list \<Rightarrow> nat list \<Rightarrow> (nat \<times> nat) list" where
  "expand_rev axs [] = []"
| "expand_rev [] (n # ns) = (n, 0) # expand_rev [] ns"
| "expand_rev ((len, stride) # axs) (n # ns) =
     (if len = n then (len, stride) else (n, 0)) # expand_rev axs ns"

definition expand_to :: "'a tensor \<Rightarrow> nat list \<Rightarrow> 'a tensor" where
  "expand_to t shp = t\<lparr>axes := rev (expand_rev (rev (axes t)) (rev shp))\<rparr>"

text \<open>
  Modelled from the spec: \<^verbatim>\<open>where\<close> of \<^verbatim>\<open>keras.backend.torch.numpy\<close> is not part of the
  sources at hand. \<^verbatim>\<open>where(condition, t, c)\<close> is the selection, element by element and
  under broadcasting, of the entry of \<open>t\<close> where the condition holds and of the number \<open>c\<close>
  elsewhere.
\<close>

definition where_select :: "bool tensor \<Rightarrow> 'a tensor \<Rightarrow> 'a \<Rightarrow> error + 'a tensor" where
  "where_select condition t c =
     (case broadcast_shapes (shape condition) (shape t) of
        Inl e \<Rightarrow> Inl e
      | Inr shp \<Rightarrow>
          Inr (contiguous shp
                 (map2 (\<lambda>b v. if b then v else c)
                    (elements (expand_to condition shp)) (elements (expand_to t shp)))))"

text \<open>The conversion of a tensor to another element type, element by element.\<close>

definition convert_dtype :: "('a \<Rightarrow> 'b) \<Rightarrow> 'a tensor \<Rightarrow> 'b tensor" where
  "convert_dtype cast t = contiguous (shape t) (map cast (elements t))"

text \<open>The loop \<^verbatim>\<open>for ax in range(axis + 1, dims): new_axes_order[ax] -= 1\<close>.\<close>

fun shift_axes :: "int list \<Rightarrow> int list \<Rightarrow> error + int list" where
  "shift_axes [] new_axes_order = Inr new_axes_order"
| "shift_axes (ax # rest) new_axes_order =
     (case py_index new_axes_order ax of
        Inl e \<Rightarrow> Inl e
      | Inr v \<Rightarrow>
          (case py_setitem new_axes_order ax (v - 1) of
             Inl e \<Rightarrow> Inl e
           | Inr order \<Rightarrow> shift_axes rest order))"

text \<open>
  \<^verbatim>\<open>one_hot(x, num_classes, axis=-1, dtype="float32")\<close> on an integer tensor \<open>x\<close>. The
  conversion to \<^verbatim>\<open>dtype\<close> is the parameter \<open>cast\<close>.
\<close>

definition one_hot :: "(int \<Rightarrow> 'b) \<Rightarrow> int tensor \<Rightarrow> int \<Rightarrow> int \<Rightarrow> error + 'b tensor" where
  "one_hot cast x num_classes axis =
     bind_err (tnn_one_hot (maximum x 0) num_classes) (\<lambda>output.
     bind_err (expand_dims x (- 1)) (\<lambda>expanded.
     bind_err (where_select (greater_equal expanded 0) output 0) (\<lambda>output.
     let output = convert_dtype cast output;
         dims = int (ndim output)
     in if axis \<noteq> - 1 \<and> axis \<noteq> dims then
          bind_err (py_setitem (map int [0..<ndim output]) axis (- 1)) (\<lambda>new_axes_order.
          bind_err (shift_axes [axis + 1..dims - 1] new_axes_order) (\<lambda>new_axes_order.
          permute output new_axes_order))
        else Inr output)))"

section \<open>Moments\<close>














section \<open>Notions of the specification\<close>

text \<open>
  The number of positions of a window of the given length moved with the given stride
  over a padded input: \<open>floor((padded_length - window) / stride) + 1\<close>.
\<close>

definition window_output_length :: "int \<Rightarrow> int \<Rightarrow> int \<Rightarrow> int" where
  "window_output_length padded_length window stride = (padded_length - window) div stride + 1"

text \<open>\<open>ceil(a / b)\<close> for a positive \<open>b\<close>, in integer arithmetic.\<close>

definition ceil_div :: "int \<Rightarrow> int \<Rightarrow> int" where
  "ceil_div a b = (a + b - 1) div b"

text \<open>
  The pairs \<open>(left, right)\<close> that \<^verbatim>\<open>_compute_padding_length\<close> gives, with dilation 1, for
  every spatial axis of a pooling call.
\<close>

definition same_paddings :: "int list \<Rightarrow> int list \<Rightarrow> int list \<Rightarrow> (int \<times> int) list \<Rightarrow> bool" where
  "same_paddings spatial_shape kernel_size strides pads \<longleftrightarrow>
     length pads = length spatial_shape \<and>
     list_all2 (\<lambda>(input_length, kernel_length, stride) p.
                  compute_padding_length input_length kernel_length stride 1 = Inr p)
       (zip spatial_shape (zip kernel_size strides)) pads"



section \<open>An engine in exact arithmetic\<close>

text \<open>
  An instance of the engine interface on tensors of one axis, in exact real arithmetic,
  to run the wrappers on concrete inputs. It refuses whatever it does not cover.
\<close>

definition on_vector :: "real tensor \<Rightarrow> int \<Rightarrow> real tensor \<Rightarrow> error + real tensor" where
  "on_vector t d result =
     (if ndim t = 1 \<and> (d = - 1 \<or> d = 0) then Inr result
      else Inl (RuntimeError ''not covered: tensors of one axis only''))"

definition pointwise ::
  "(real \<Rightarrow> real \<Rightarrow> real) \<Rightarrow> real tensor \<Rightarrow> real tensor \<Rightarrow> error + real tensor" where
  "pointwise f a b =
     (if shape a = shape b then Inr (contiguous (shape a) (map2 f (elements a) (elements b)))
      else if numel b = 1 then
        Inr (contiguous (shape a) (map (\<lambda>v. f v (hd (elements b))) (elements a)))
      else Inl (RuntimeError ''not covered: operands of different shapes''))"

definition ideal_engine :: "real engine" where
  "ideal_engine =
     \<lparr>tnn_softmax = (\<lambda>t d. on_vector t d
        (contiguous (shape t)
           (map (\<lambda>v. exp v / sum_list (map exp (elements t))) (elements t)))),
      tnn_log_softmax = (\<lambda>t d. on_vector t d
        (contiguous (shape t)
           (map (\<lambda>v. v - ln (sum_list (map exp (elements t)))) (elements t)))),
      torch_sum = (\<lambda>t d keepdim. on_vector t d
        (contiguous (if keepdim then [1] else []) [sum_list (elements t)])),
      torch_clip = (\<lambda>t lo hi.
        Inr (contiguous (shape t) (map (\<lambda>v. min (max v lo) hi) (elements t)))),
      torch_log = (\<lambda>t. Inr (contiguous (shape t) (map ln (elements t)))),
      tensor_div = pointwise (/),
      tensor_mul = pointwise (*),
      tensor_neg = (\<lambda>t. Inr (contiguous (shape t) (map uminus (elements t))))\<rparr>"

text \<open>
  An instance of \<^verbatim>\<open>tnn.pad\<close>: the constant mode with the value 0 and amounts that are not
  negative. \<open>pad\<close> lists the amounts of the last axis first, two for each axis.
\<close>

definition pad_amounts :: "nat \<Rightarrow> int list \<Rightarrow> (int \<times> int) list" where
  "pad_amounts n pad =
     replicate (n - length pad div 2) (0, 0) @
     rev (map (\<lambda>j. (pad ! (2 * j), pad ! (2 * j + 1))) [0..<length pad div 2])"

definition zero_pad :: "'a::zero tensor \<Rightarrow> int list \<Rightarrow> string \<Rightarrow> error + 'a tensor" where
  "zero_pad t pad mode =
     (if mode \<noteq> ''constant'' \<or> odd (length pad) \<or> ndim t < length pad div 2 \<or>
         list_ex (\<lambda>v. v < 0) pad
      then Inl (RuntimeError ''not covered: zero filling by amounts that are not negative only'')
      else
        let amounts = pad_amounts (ndim t) pad;
            padded_shape = map2 (\<lambda>s (l, r). nat l + s + nat r) (shape t) amounts
        in Inr (contiguous padded_shape
                  (map (\<lambda>idx.
                          let source = map2 (\<lambda>i (l, r). int i - l) idx amounts
                          in if list_all2 (\<lambda>j s. 0 \<le> j \<and> j < int s) source (shape t)
                             then elem t (map nat source) else 0)
                     (indices padded_shape))))"

section \<open>Properties of the padding computation\<close>

lemma compute_padding_length_total:
  assumes "compute_padding_length L K S D = Inr (l, r)"
  shows "l + r = D * (K - 1) - (L - 1) mod S"
  using assms by (auto simp: compute_padding_length_def Let_def split: if_splits)

lemma compute_padding_length_right_biased:
  assumes "compute_padding_length L K S D = Inr (l, r)"
  shows "l \<le> r \<and> r \<le> l + 1"
  using assms by (auto simp: compute_padding_length_def Let_def split: if_splits)

lemma div_less_of_less_mult:
  fixes S :: int
  assumes "0 < S" "a < S * q"
  shows "a div S < q"
proof -
  have "S * (a div S) + a mod S = a" by (rule mult_div_mod_eq)
  moreover have "0 \<le> a mod S" using assms(1) by simp
  ultimately have "S * (a div S) < S * q" using assms(2) by linarith
  then show ?thesis using assms(1) by (simp add: mult_less_cancel_left_pos)
qed

lemma ceil_div_alt: "0 < S \<Longrightarrow> ceil_div L S = (L - 1) div S + 1"
proof -
  assume "0 < S"
  then have "S \<noteq> 0" by simp
  have "(L + S - 1) div S = ((L - 1) + S) div S" by (simp add: algebra_simps)
  also have "\<dots> = (L - 1) div S + 1" using \<open>S \<noteq> 0\<close> by (rule div_add_self2)
  finally show ?thesis by (simp add: ceil_div_def)
qed

text \<open>\<open>ceil_div L S\<close> is the least integer \<open>q\<close> with \<open>L \<le> S * q\<close>.\<close>

lemma ceil_div_is_ceiling:
  assumes "0 < S"
  shows "L \<le> S * ceil_div L S \<and> S * (ceil_div L S - 1) < L"
proof -
  define q where "q = (L - 1) div S"
  define r where "r = (L - 1) mod S"
  have d: "S * q + r = L - 1" unfolding q_def r_def by (rule mult_div_mod_eq)
  have r: "0 \<le> r" "r < S" using assms by (simp_all add: r_def)
  have c: "ceil_div L S = q + 1" using assms by (simp add: ceil_div_alt q_def)
  have "L \<le> S * q + S" using d r by linarith
  moreover have "S * q < L" using d r by linarith
  ultimately show ?thesis unfolding c by (simp add: algebra_simps)
qed

text \<open>
  With the total padding of the code, the window reaches the output length \<open>ceil(L / S)\<close>,
  and with any smaller total, negative ones included, it does not.
\<close>

lemma compute_padding_length_reaches:
  assumes "0 < S" "compute_padding_length L K S D = Inr (l, r)"
  shows "window_output_length (L + (l + r)) (D * (K - 1) + 1) S = ceil_div L S"
proof -
  have t: "l + r = D * (K - 1) - (L - 1) mod S"
    using assms(2) by (rule compute_padding_length_total)
  have "L + (l + r) - (D * (K - 1) + 1) = (L - 1) - (L - 1) mod S" using t by simp
  also have "\<dots> = S * ((L - 1) div S)" by (simp add: minus_mod_eq_mult_div)
  finally show ?thesis using assms(1) by (simp add: window_output_length_def ceil_div_alt)
qed

lemma compute_padding_length_least:
  assumes "0 < S" "compute_padding_length L K S D = Inr (l, r)" "p < l + r"
  shows "window_output_length (L + p) (D * (K - 1) + 1) S < ceil_div L S"
proof -
  have t: "l + r = D * (K - 1) - (L - 1) mod S"
    using assms(2) by (rule compute_padding_length_total)
  have "L + p - (D * (K - 1) + 1) < (L - 1) - (L - 1) mod S" using t assms(3) by simp
  also have "\<dots> = S * ((L - 1) div S)" by (simp add: minus_mod_eq_mult_div)
  finally have "(L + p - (D * (K - 1) + 1)) div S < (L - 1) div S"
    using assms(1) by (rule div_less_of_less_mult[rotated])
  then show ?thesis using assms(1) by (simp add: window_output_length_def ceil_div_alt)
qed

text \<open>The total is not negative as soon as the dilated kernel covers a stride.\<close>

lemma compute_padding_length_nonnegative:
  assumes "0 < S" "S - 1 \<le> D * (K - 1)" "compute_padding_length L K S D = Inr (l, r)"
  shows "0 \<le> l + r"
proof -
  have "(L - 1) mod S < S" using assms(1) by simp
  then show ?thesis
    using assms(2) compute_padding_length_total [OF assms(3)] by linarith
qed

text \<open>
  C1. The claim asks for \<open>left + right \<ge> 0\<close> whenever all four arguments are at least 1.
  A kernel of length 1 moved with stride 2 over an input of length 2 gives the pair
  \<open>(-1, 0)\<close>, whose sum is negative: the subtraction of \<open>(input_length - 1) mod stride\<close>
  is not clamped at zero.
\<close>

theorem compute_padding_length_negative_total:
  "compute_padding_length 2 1 2 1 = Inr (- 1, 0) \<and> (- 1::int) + 0 < 0"
  by (simp add: compute_padding_length_def)

text \<open>
  C4. The claim asks for \<open>left + right\<close> to be the minimum total padding with which the
  window reaches the output length \<open>ceil(L / S)\<close>. For an input of length 3, a kernel of
  length 1, stride 3 and dilation 1 no padding at all is needed: the total 0 gives the
  output length \<open>ceil(3 / 3)\<close>. The code returns \<open>(-1, -1)\<close>, a total of \<open>-2\<close>.
\<close>

theorem compute_padding_length_below_minimum:
  "compute_padding_length 3 1 3 1 = Inr (- 1, - 1) \<and>
   window_output_length (3 + 0) (1 * (1 - 1) + 1) 3 = ceil_div 3 3 \<and>
   (- 1::int) + (- 1) < 0"
  by (simp add: compute_padding_length_def window_output_length_def ceil_div_def)

section \<open>Properties of the tensor model\<close>

lemma length_indices: "length (indices s) = prod_list s"
proof (induction s)
  case Nil
  show ?case by simp
next
  case (Cons n ns)
  have "length (indices (n # ns)) = sum_list (map (\<lambda>i. prod_list ns) [0..<n])"
    by (simp add: length_concat comp_def Cons.IH)
  also have "\<dots> = n * prod_list ns"
    by (simp add: sum_list_triv)
  finally show ?case by simp
qed

lemma length_of_index: "idx \<in> set (indices s) \<Longrightarrow> length idx = length s"
  by (induction s arbitrary: idx) auto

lemma flat_index_Cons: "flat_index (i # idx) (st # strs) = i * st + flat_index idx strs"
  by (simp add: flat_index_def)

lemma flat_index_snoc:
  "length idx = length strs \<Longrightarrow>
   flat_index (idx @ [j]) (strs @ [st]) = flat_index idx strs + j * st"
  by (simp add: flat_index_def)

lemma concat_blocks: "concat (map (\<lambda>i. map (\<lambda>k. i * p + k) [0..<p]) [0..<n]) = [0..<n * p]"
proof (induction n)
  case 0
  show ?case by simp
next
  case (Suc n)
  have "[0..<n * p + p] = [0..<n * p] @ [n * p..<n * p + p]"
    by (rule upt_add_eq_append) simp
  moreover have "map (\<lambda>k. k + n * p) [0..<p] = [n * p..<p + n * p]"
    by (rule map_add_upt)
  moreover have "Suc n * p = n * p + p" by simp
  ultimately show ?case using Suc by (simp add: add.commute)
qed

text \<open>Row-major strides enumerate the storage positions in order.\<close>

lemma row_major_positions:
  "map (\<lambda>idx. flat_index idx (contiguous_strides s)) (indices s) = [0..<prod_list s]"
proof (induction s)
  case Nil
  show ?case by (simp add: flat_index_def)
next
  case (Cons n ns)
  have "map (\<lambda>idx. flat_index idx (contiguous_strides (n # ns))) (indices (n # ns)) =
        concat (map (\<lambda>i. map (\<lambda>idx. i * prod_list ns + flat_index idx (contiguous_strides ns))
                              (indices ns)) [0..<n])"
    by (simp add: map_concat comp_def flat_index_Cons)
  also have "\<dots> = concat (map (\<lambda>i. map (\<lambda>k. i * prod_list ns + k) [0..<prod_list ns]) [0..<n])"
  proof -
    have "map (\<lambda>idx. i * prod_list ns + flat_index idx (contiguous_strides ns)) (indices ns)
            = map (\<lambda>k. i * prod_list ns + k) [0..<prod_list ns]" for i
    proof -
      have "map (\<lambda>idx. i * prod_list ns + flat_index idx (contiguous_strides ns)) (indices ns)
            = map (\<lambda>k. i * prod_list ns + k)
                (map (\<lambda>idx. flat_index idx (contiguous_strides ns)) (indices ns))"
        by (simp add: comp_def)
      then show ?thesis by (simp only: Cons.IH)
    qed
    then show ?thesis by simp
  qed
  also have "\<dots> = [0..<n * prod_list ns]" by (rule concat_blocks)
  finally show ?case by simp
qed

lemma length_contiguous_strides: "length (contiguous_strides s) = length s"
  by (induction s) auto

lemma shape_contiguous: "shape (contiguous s d) = s"
  by (simp add: shape_def contiguous_def length_contiguous_strides)

lemma strides_contiguous: "strides_of (contiguous s d) = contiguous_strides s"
  by (simp add: strides_of_def contiguous_def length_contiguous_strides)

lemma storage_contiguous: "storage (contiguous s d) = d"
  by (simp add: contiguous_def)

lemma ndim_contiguous: "ndim (contiguous s d) = length s"
  by (simp add: ndim_def contiguous_def length_contiguous_strides)

lemma length_elements: "length (elements t) = numel t"
  by (simp add: elements_def numel_def length_indices)

text \<open>A fresh tensor holds the given list, read in row-major order.\<close>

lemma elements_contiguous:
  assumes "length d = prod_list s"
  shows "elements (contiguous s d) = d"
proof -
  have "elements (contiguous s d) =
        map ((!) d) (map (\<lambda>idx. flat_index idx (contiguous_strides s)) (indices s))"
    by (simp add: elements_def elem_def comp_def storage_contiguous shape_contiguous
          strides_contiguous)
  also have "\<dots> = map ((!) d) [0..<length d]" by (simp add: row_major_positions assms)
  also have "\<dots> = d" by (rule map_nth)
  finally show ?thesis .
qed

lemma concat_concat_map: "concat (concat xss) = concat (map concat xss)"
  by (induction xss) auto

lemma indices_snoc:
  "indices (s @ [n]) = concat (map (\<lambda>idx. map (\<lambda>j. idx @ [j]) [0..<n]) (indices s))"
proof (induction s)
  case Nil
  show ?case by (simp add: comp_def)
next
  case (Cons m ms)
  have "indices ((m # ms) @ [n]) =
        concat (map (\<lambda>i. map ((#) i) (indices (ms @ [n]))) [0..<m])" by simp
  also have "\<dots> = concat (map (\<lambda>i. concat (map (\<lambda>idx. map (\<lambda>j. (i # idx) @ [j]) [0..<n])
                                                 (indices ms))) [0..<m])"
    by (simp only: Cons.IH map_concat map_map comp_def append_Cons)
  also have "\<dots> = concat (map concat (map (\<lambda>i. map (\<lambda>idx. map (\<lambda>j. (i # idx) @ [j]) [0..<n])
                                                       (indices ms)) [0..<m]))"
    by (simp only: map_map comp_def)
  also have "\<dots> = concat (concat (map (\<lambda>i. map (\<lambda>idx. map (\<lambda>j. (i # idx) @ [j]) [0..<n])
                                                  (indices ms)) [0..<m]))"
    by (simp only: concat_concat_map)
  also have "\<dots> = concat (map (\<lambda>idx. map (\<lambda>j. idx @ [j]) [0..<n]) (indices (m # ms)))"
    by (simp only: indices.simps map_concat map_map comp_def)
  finally show ?case .
qed

section \<open>The layout helpers invert each other\<close>

text \<open>
  C10. For a tensor of rank 3, 4 or 5, \<^verbatim>\<open>_transpose_spatial_inputs\<close> returns a tensor of
  the same rank, on which \<^verbatim>\<open>_transpose_spatial_outputs\<close> returns the original tensor;
  \<^verbatim>\<open>_transpose_spatial_outputs\<close> keeps the rank as well. For any other rank
  \<^verbatim>\<open>_transpose_spatial_outputs\<close> returns its argument and \<^verbatim>\<open>_transpose_spatial_inputs\<close>
  raises a \<^verbatim>\<open>ValueError\<close>.
\<close>

theorem transpose_spatial_outputs_inverts_inputs:
  "(ndim x \<in> {3, 4, 5} \<longrightarrow>
      (\<exists>y. transpose_spatial_inputs x = Inr y \<and> ndim y = ndim x \<and>
           transpose_spatial_outputs y = Inr x) \<and>
      (\<exists>z. transpose_spatial_outputs x = Inr z \<and> ndim z = ndim x)) \<and>
   (ndim x \<notin> {3, 4, 5} \<longrightarrow>
      transpose_spatial_outputs x = Inr x \<and>
      (\<exists>m. transpose_spatial_inputs x = Inl (ValueError m)))"
proof (intro conjI impI)
  assume "ndim x \<in> {3, 4, 5}"
  then show "\<exists>y. transpose_spatial_inputs x = Inr y \<and> ndim y = ndim x \<and>
                 transpose_spatial_outputs y = Inr x"
    unfolding ndim_def
    apply (auto simp: length_Suc_conv eval_nat_numeral)
    apply (auto simp: transpose_spatial_inputs_def transpose_spatial_outputs_def permute_def
                      ndim_def shape_def normalize_dim_def)
    done
next
  assume "ndim x \<in> {3, 4, 5}"
  then show "\<exists>z. transpose_spatial_outputs x = Inr z \<and> ndim z = ndim x"
    unfolding ndim_def
    apply (auto simp: length_Suc_conv eval_nat_numeral)
    apply (auto simp: transpose_spatial_outputs_def permute_def ndim_def shape_def
                      normalize_dim_def)
    done
next
  assume "ndim x \<notin> {3, 4, 5}"
  then show "transpose_spatial_outputs x = Inr x"
    by (auto simp: transpose_spatial_outputs_def ndim_def shape_def)
next
  assume "ndim x \<notin> {3, 4, 5}"
  then show "\<exists>m. transpose_spatial_inputs x = Inl (ValueError m)"
    by (auto simp: transpose_spatial_inputs_def ndim_def)
qed

theorem transpose_spatial_outputs_inverts_inputs_witness:
  "ndim (contiguous [2, 3, 4] [0..<24]) \<in> {3, 4, 5} \<and>
   (\<exists>y. transpose_spatial_inputs (contiguous [2, 3, 4] [0..<24]) = Inr y \<and>
        ndim y = ndim (contiguous [2, 3, 4] [0..<24]) \<and>
        transpose_spatial_outputs y = Inr (contiguous [2, 3, 4] [0..<24])) \<and>
   ndim (contiguous [2, 3] [0..<6]) \<notin> {3, 4, 5} \<and>
   transpose_spatial_outputs (contiguous [2, 3] [0..<6]) = Inr (contiguous [2, 3] [0..<6]) \<and>
   (\<exists>m. transpose_spatial_inputs (contiguous [2, 3] [0..<6]) = Inl (ValueError m))"
  using transpose_spatial_outputs_inverts_inputs [of "contiguous [2, 3, 4] [0..<24]"]
        transpose_spatial_outputs_inverts_inputs [of "contiguous [2, 3] [0..<6]"]
  by (simp add: ndim_contiguous)

section \<open>Sequencing and argument normalisation\<close>

lemma bind_err_Inl: "bind_err (Inl e) f = Inl e"
  by (simp add: bind_err_def)

lemma bind_err_Inr: "bind_err (Inr v) f = f v"
  by (simp add: bind_err_def)

lemma bind_err_eq_Inr:
  "bind_err m f = Inr r \<longleftrightarrow> (\<exists>v. m = Inr v \<and> f v = Inr r)"
  by (cases m) (simp_all add: bind_err_def)


lemma py_index_short: "length xs \<le> k \<Longrightarrow> py_index xs (int k) = Inl IndexError"
  by (simp add: py_index_def py_position_def)


lemma standardize_tuple_idem:
  "standardize_tuple v n name = Inr ks \<Longrightarrow> 0 \<le> n \<Longrightarrow> standardize_tuple (SeqArg ks) n name' = Inr ks"
  by (auto simp: standardize_tuple_def split: arg.splits if_splits)

lemma transpose_spatial_inputs_rank:
  "transpose_spatial_inputs x = Inr y \<Longrightarrow> ndim x \<in> {3, 4, 5}"
  by (auto simp: transpose_spatial_inputs_def Let_def split: if_splits)

lemma length_shape: "length (shape t) = ndim t"
  by (simp add: shape_def ndim_def)


section \<open>Average pooling under same padding\<close>

lemma average_pool_call_same_Inr:
  assumes "average_pool_call tnn_pad dflt inputs pool_size strides ''same'' data_format = Inr c"
  shows "\<exists>ps st fmt x pv up.
    standardize_tuple pool_size (int (ndim inputs) - 2) ''pool_size'' = Inr ps \<and>
    (case strides of None \<Rightarrow> Inr ps
     | Some s \<Rightarrow> standardize_tuple s (int (ndim inputs) - 2) ''strides'') = Inr st \<and>
    standardize_data_format dflt data_format = Inr fmt \<and>
    (if fmt = ''channels_last'' then transpose_spatial_inputs inputs else Inr inputs) = Inr x \<and>
    average_pool_loop (map int (drop 2 (shape x))) ps st
      (map int [0..<length (drop 2 (shape x))]) [] [] = Inr (pv, up) \<and>
    length (drop 2 (shape x)) \<in> {1, 2, 3} \<and>
    (if up \<noteq> [] then tnn_pad x up ''constant'' else Inr x) = Inr (pool_input c) \<and>
    pool_kernel_size c = ps \<and> pool_stride c = st \<and>
    pool_padding c = PadList pv"
proof -
  let ?n = "int (ndim inputs) - 2"
  note defs = average_pool_call_def Let_def bind_err_def
  obtain ps where ps: "standardize_tuple pool_size ?n ''pool_size'' = Inr ps"
    using assms by (cases "standardize_tuple pool_size ?n ''pool_size''") (simp_all add: defs)
  let ?st = "case strides of None \<Rightarrow> Inr ps | Some s \<Rightarrow> standardize_tuple s ?n ''strides''"
  obtain st where st: "?st = Inr st"
    using assms ps by (cases ?st) (simp_all add: defs)
  obtain fmt where fmt: "standardize_data_format dflt data_format = Inr fmt"
    using assms ps st by (cases "standardize_data_format dflt data_format") (simp_all add: defs)
  let ?x = "if fmt = ''channels_last'' then transpose_spatial_inputs inputs else Inr inputs"
  obtain x where x: "?x = Inr x"
    using assms ps st fmt by (cases ?x) (simp_all add: defs)
  let ?loop = "average_pool_loop (map int (drop 2 (shape x))) ps st
      (map int [0..<length (drop 2 (shape x))]) [] []"
  obtain pv up where loop: "?loop = Inr (pv, up)"
    using assms ps st fmt x by (cases ?loop) (auto simp add: defs)
  let ?y = "if up \<noteq> [] then tnn_pad x up ''constant'' else Inr x"
  obtain y where y: "?y = Inr y"
    using assms ps st fmt x loop by (cases ?y) (simp_all add: defs)
  have fin: "(let call = (\<lambda>name. Inr \<lparr>pool_primitive = name, pool_input = y,
                    pool_kernel_size = ps,
                    pool_stride = st, pool_padding = PadList pv,
                    pool_cpu_buffer = False,
                    pool_restore_layout = (fmt = ''channels_last'')\<rparr>);
                 k = int (length (drop 2 (shape x)))
      in if k = 1 then call ''avg_pool1d''
         else if k = 2 then call ''avg_pool2d''
         else if k = 3 then call ''avg_pool3d''
         else Inl (ValueError
           ''Inputs to pooling op must have ndim=3, 4 or 5, corresponding to 1D, 2D and 3D inputs.'')) = Inr c"
    using assms ps st fmt x loop y by (simp add: defs)
  then have "length (drop 2 (shape x)) \<in> {1, 2, 3} \<and>
    pool_input c = y \<and> pool_kernel_size c = ps \<and> pool_stride c = st \<and>
    pool_padding c = PadList pv"
    by (auto simp: Let_def split: if_splits)
  with ps st fmt x loop y show ?thesis by auto
qed


lemma py_index_int_Inr:
  "py_index xs (int k) = Inr v \<longleftrightarrow> k < length xs \<and> v = xs ! k"
  by (auto simp: py_index_def py_position_def)

lemma concat_replicate_snoc: "concat (replicate k xs) @ xs = xs @ concat (replicate k xs)"
  by (induction k) auto

lemma average_pool_loop_Inr:
  assumes "average_pool_loop sp ps st idxs pv up = Inr (pv', up')"
  shows "\<exists>pads. list_all2 (\<lambda>i p. \<exists>L K S. py_index sp i = Inr L \<and> py_index ps i = Inr K \<and>
                               py_index st i = Inr S \<and>
                               compute_padding_length L K S 1 = Inr p) idxs pads \<and>
           pv' = pv @ map fst pads \<and>
           up' = concat (replicate (length (filter (\<lambda>p. fst p \<noteq> snd p) pads)) [0, 1]) @ up"
  using assms
proof (induction idxs arbitrary: pv up)
  case Nil
  then show ?case by simp
next
  case (Cons i rest)
  from Cons.prems obtain L where L: "py_index sp i = Inr L"
    by (cases "py_index sp i") simp_all
  from Cons.prems L obtain K where K: "py_index ps i = Inr K"
    by (cases "py_index ps i") simp_all
  from Cons.prems L K obtain S where S: "py_index st i = Inr S"
    by (cases "py_index st i") simp_all
  from Cons.prems L K S obtain p where p: "compute_padding_length L K S 1 = Inr p"
    by (cases "compute_padding_length L K S 1") simp_all
  let ?up = "if fst p \<noteq> snd p then [0, 1] @ up else up"
  from Cons.prems L K S p
  have "average_pool_loop sp ps st rest (pv @ [fst p]) ?up = Inr (pv', up')"
    by simp
  from Cons.IH [OF this] obtain pads where
    a: "list_all2 (\<lambda>i p. \<exists>L K S. py_index sp i = Inr L \<and> py_index ps i = Inr K \<and>
                               py_index st i = Inr S \<and>
                               compute_padding_length L K S 1 = Inr p) rest pads"
    and b: "pv' = (pv @ [fst p]) @ map fst pads"
    and c: "up' = concat (replicate (length (filter (\<lambda>p. fst p \<noteq> snd p) pads)) [0, 1]) @ ?up"
    by blast
  have "list_all2 (\<lambda>i p. \<exists>L K S. py_index sp i = Inr L \<and> py_index ps i = Inr K \<and>
                               py_index st i = Inr S \<and>
                               compute_padding_length L K S 1 = Inr p) (i # rest) (p # pads)"
    using a L K S p by auto
  moreover have "pv' = pv @ map fst (p # pads)" using b by simp
  moreover have "up' = concat (replicate (length (filter (\<lambda>p. fst p \<noteq> snd p) (p # pads))) [0, 1]) @ up"
  proof (cases "fst p \<noteq> snd p")
    case True
    let ?k = "length (filter (\<lambda>p. fst p \<noteq> snd p) pads)"
    have "concat (replicate ?k [0, 1]) @ [0, 1] @ up = (concat (replicate ?k [0, 1]) @ [0, 1]) @ up"
      by simp
    also have "\<dots> = ([0, 1] @ concat (replicate ?k [0, 1])) @ up"
      by (simp only: concat_replicate_snoc)
    finally show ?thesis using True c by simp
  next
    case False
    with c show ?thesis by simp
  qed
  ultimately show ?case by blast
qed


lemma same_paddings_of_loop:
  assumes "list_all2 (\<lambda>i p. \<exists>L K S. py_index sp i = Inr L \<and> py_index ps i = Inr K \<and>
                               py_index st i = Inr S \<and>
                               compute_padding_length L K S 1 = Inr p)
             (map int [0..<length sp]) pads"
  shows "same_paddings sp ps st pads"
proof -
  let ?n = "length sp"
  have len: "length pads = ?n" using assms by (auto dest: list_all2_lengthD)
  have nth: "j < length ps \<and> j < length st \<and>
             compute_padding_length (sp ! j) (ps ! j) (st ! j) 1 = Inr (pads ! j)"
    if "j < ?n" for j
  proof -
    from assms that len
    have "\<exists>L K S. py_index sp (int j) = Inr L \<and> py_index ps (int j) = Inr K \<and>
                  py_index st (int j) = Inr S \<and> compute_padding_length L K S 1 = Inr (pads ! j)"
      by (auto simp: list_all2_conv_all_nth)
    then show ?thesis by (auto simp: py_index_int_Inr)
  qed
  have "?n \<le> length ps \<and> ?n \<le> length st"
  proof (cases ?n)
    case 0
    then show ?thesis by simp
  next
    case (Suc m)
    with nth [of m] show ?thesis by simp
  qed
  then have "length (zip sp (zip ps st)) = length pads" using len by simp
  then show ?thesis
    using len nth by (auto simp: same_paddings_def list_all2_conv_all_nth)
qed


text \<open>
  C3, as the claim states it: with an asymmetric padding the primitive would receive a
  zero padding amount. For an input of length 4, a pool size of 4 and stride 1 the pair is
  \<open>(1, 2)\<close>. Whatever \<^verbatim>\<open>tnn.pad\<close> does, either it raises, or the primitive receives the
  padding \<open>[1]\<close> and the input to which \<^verbatim>\<open>tnn.pad\<close> has added only \<open>[0, 1]\<close>.
\<close>

theorem average_pool_same_passes_left_padding:
  "compute_padding_length 4 4 1 1 = Inr (1, 2) \<and>
   (\<forall>tnn_pad.
      (\<exists>e. tnn_pad (contiguous [1, 1, 4] [1, 2, 3, 4 :: int]) [0, 1] ''constant'' = Inl e \<and>
           average_pool_call tnn_pad ''channels_last'' (contiguous [1, 1, 4] [1, 2, 3, 4])
             (IntArg 4) (Some (IntArg 1)) ''same'' (Some ''channels_first'') = Inl e) \<or>
      (\<exists>c. average_pool_call tnn_pad ''channels_last'' (contiguous [1, 1, 4] [1, 2, 3, 4])
             (IntArg 4) (Some (IntArg 1)) ''same'' (Some ''channels_first'') = Inr c \<and>
           tnn_pad (contiguous [1, 1, 4] [1, 2, 3, 4 :: int]) [0, 1] ''constant''
             = Inr (pool_input c) \<and>
           pool_padding c = PadList [1] \<and> pool_padding c \<noteq> PadInt 0 \<and>
           pool_padding c \<noteq> PadList [0]))"
proof -
  have "(\<exists>e. tnn_pad (contiguous [1, 1, 4] [1, 2, 3, 4 :: int]) [0, 1] ''constant'' = Inl e \<and>
           average_pool_call tnn_pad ''channels_last'' (contiguous [1, 1, 4] [1, 2, 3, 4])
             (IntArg 4) (Some (IntArg 1)) ''same'' (Some ''channels_first'') = Inl e) \<or>
      (\<exists>c. average_pool_call tnn_pad ''channels_last'' (contiguous [1, 1, 4] [1, 2, 3, 4])
             (IntArg 4) (Some (IntArg 1)) ''same'' (Some ''channels_first'') = Inr c \<and>
           tnn_pad (contiguous [1, 1, 4] [1, 2, 3, 4 :: int]) [0, 1] ''constant''
             = Inr (pool_input c) \<and>
           pool_padding c = PadList [1] \<and> pool_padding c \<noteq> PadInt 0 \<and>
           pool_padding c \<noteq> PadList [0])"
    for tnn_pad :: "int tensor \<Rightarrow> int list \<Rightarrow> string \<Rightarrow> error + int tensor"
    by (cases "tnn_pad (contiguous [1, 1, 4] [1, 2, 3, 4 :: int]) [0, 1] ''constant''")
       (simp_all add: average_pool_call_def standardize_tuple_def standardize_data_format_def
          bind_err_def ndim_def shape_def py_index_def py_position_def
          compute_padding_length_def Let_def contiguous_def)
  moreover have "compute_padding_length 4 4 1 1 = Inr (1, 2)"
    by (simp add: compute_padding_length_def Let_def)
  ultimately show ?thesis by blast
qed


text \<open>
  C3, amended. Whenever \<^verbatim>\<open>average_pool\<close> reaches the primitive under \<^verbatim>\<open>padding == "same"\<close>,
  the primitive receives as padding the left (shorter) padding of every spatial axis of
  the input in channels-first layout. When every axis has equal left and right paddings
  the primitive receives that input itself; when some axis has different ones it
  receives the result of a \<^verbatim>\<open>tnn.pad\<close> of that input in the constant mode, which fills
  with zeros. The amounts handed to \<^verbatim>\<open>tnn.pad\<close> are left open.
\<close>

theorem average_pool_same_padding_arguments:
  assumes "average_pool_call tnn_pad dflt inputs pool_size strides ''same'' data_format = Inr c"
  shows "\<exists>fmt x pads.
    standardize_data_format dflt data_format = Inr fmt \<and>
    (if fmt = ''channels_last'' then transpose_spatial_inputs inputs else Inr inputs) = Inr x \<and>
    same_paddings (map int (drop 2 (shape x))) (pool_kernel_size c) (pool_stride c) pads \<and>
    pool_padding c = PadList (map fst pads) \<and>
    (if list_ex (\<lambda>p. fst p \<noteq> snd p) pads
     then \<exists>pad. tnn_pad x pad ''constant'' = Inr (pool_input c)
     else pool_input c = x)"
proof -
  from average_pool_call_same_Inr [OF assms] obtain ps st fmt x pv up where
    fmt: "standardize_data_format dflt data_format = Inr fmt"
    and x: "(if fmt = ''channels_last'' then transpose_spatial_inputs inputs else Inr inputs)
              = Inr x"
    and loop: "average_pool_loop (map int (drop 2 (shape x))) ps st
             (map int [0..<length (drop 2 (shape x))]) [] [] = Inr (pv, up)"
    and y: "(if up \<noteq> [] then tnn_pad x up ''constant'' else Inr x) = Inr (pool_input c)"
    and c: "pool_kernel_size c = ps" "pool_stride c = st" "pool_padding c = PadList pv"
    by blast
  from average_pool_loop_Inr [OF loop] obtain pads where
    a: "list_all2 (\<lambda>i p. \<exists>L K S. py_index (map int (drop 2 (shape x))) i = Inr L \<and>
                               py_index ps i = Inr K \<and> py_index st i = Inr S \<and>
                               compute_padding_length L K S 1 = Inr p)
          (map int [0..<length (drop 2 (shape x))]) pads"
    and pv: "pv = map fst pads"
    and up: "up = concat (replicate (length (filter (\<lambda>p. fst p \<noteq> snd p) pads)) [0, 1])"
    by auto
  have sp: "same_paddings (map int (drop 2 (shape x))) ps st pads"
    using a same_paddings_of_loop [of "map int (drop 2 (shape x))" ps st pads] by simp
  have "up \<noteq> [] \<longleftrightarrow> filter (\<lambda>p. fst p \<noteq> snd p) pads \<noteq> []"
    unfolding up by (cases "filter (\<lambda>p. fst p \<noteq> snd p) pads") simp_all
  also have "\<dots> \<longleftrightarrow> list_ex (\<lambda>p. fst p \<noteq> snd p) pads"
    by (simp add: filter_empty_conv list_ex_iff)
  finally have ne: "up \<noteq> [] \<longleftrightarrow> list_ex (\<lambda>p. fst p \<noteq> snd p) pads" .
  have "if list_ex (\<lambda>p. fst p \<noteq> snd p) pads
        then \<exists>pad. tnn_pad x pad ''constant'' = Inr (pool_input c)
        else pool_input c = x"
  proof (cases "list_ex (\<lambda>p. fst p \<noteq> snd p) pads")
    case True
    with ne y have "tnn_pad x up ''constant'' = Inr (pool_input c)" by simp
    with True show ?thesis by auto
  next
    case False
    with ne y show ?thesis by simp
  qed
  with fmt x sp c pv show ?thesis by blast
qed


theorem average_pool_same_padding_arguments_witness:
  "\<exists>c. average_pool_call zero_pad ''channels_last'' (contiguous [1, 1, 4] [1, 2, 3, 4 :: int])
         (IntArg 4) (Some (IntArg 1)) ''same'' (Some ''channels_first'') = Inr c \<and>
       (\<exists>fmt x pads.
          standardize_data_format ''channels_last'' (Some ''channels_first'') = Inr fmt \<and>
          (if fmt = ''channels_last''
           then transpose_spatial_inputs (contiguous [1, 1, 4] [1, 2, 3, 4])
           else Inr (contiguous [1, 1, 4] [1, 2, 3, 4])) = Inr x \<and>
          same_paddings (map int (drop 2 (shape x))) (pool_kernel_size c) (pool_stride c)
            pads \<and>
          pool_padding c = PadList (map fst pads) \<and>
          (if list_ex (\<lambda>p. fst p \<noteq> snd p) pads
           then \<exists>pad. zero_pad x pad ''constant'' = Inr (pool_input c)
           else pool_input c = x))"
proof -
  have "\<exists>c. average_pool_call zero_pad ''channels_last''
         (contiguous [1, 1, 4] [1, 2, 3, 4 :: int])
         (IntArg 4) (Some (IntArg 1)) ''same'' (Some ''channels_first'') = Inr c"
    by (simp add: average_pool_call_def standardize_tuple_def standardize_data_format_def
          bind_err_def ndim_def contiguous_def shape_def py_index_def py_position_def
          compute_padding_length_def Let_def zero_pad_def)
  then obtain c where h: "average_pool_call zero_pad ''channels_last''
         (contiguous [1, 1, 4] [1, 2, 3, 4 :: int])
         (IntArg 4) (Some (IntArg 1)) ''same'' (Some ''channels_first'') = Inr c" ..
  from average_pool_same_padding_arguments [OF h] h show ?thesis by blast
qed

section \<open>Convolution: the channel check\<close>








text \<open>
  An exception of \<^verbatim>\<open>tnn.pad\<close> comes before the channel check: on an input with an empty
  spatial axis, a kernel of length 1 and stride 2 the padding is \<open>(-1, 0)\<close>, and what
  \<^verbatim>\<open>tnn.pad\<close> raises on it is what \<^verbatim>\<open>conv\<close> raises, although 3 channels are not divisible
  by the 2 input channels of the kernel.
\<close>

lemma conv_pad_error_before_channel_check:
  assumes "tnn_pad (contiguous [1, 3, 0] []) [- 1, 0] ''constant'' = Inl e"
  shows "conv_call tnn_pad ''channels_last'' (contiguous [1, 3, 0] ([] :: int list))
           (contiguous [1, 2, 1] [1, 1]) (IntArg 2) ''same'' (Some ''channels_first'')
           (IntArg 1) = Inl e"
  using assms
  by (simp add: conv_call_def standardize_tuple_def standardize_data_format_def
        bind_err_def ndim_def contiguous_def transpose_conv_kernel_def shape_def permute_def
        normalize_dim_def py_index_def py_position_def apply_same_padding_def
        compute_padding_length_def Let_def)






section \<open>Ranks other than 3, 4 and 5\<close>

text \<open>
  No wrapper reaches its primitive on an input of another rank, and in the channels-last
  layout each raises a \<^verbatim>\<open>ValueError\<close>.
\<close>

lemma standardize_tuple_error:
  "standardize_tuple v n name = Inl e \<Longrightarrow> \<exists>m. e = ValueError m"
  by (auto simp: standardize_tuple_def split: arg.splits if_splits)

lemma transpose_spatial_inputs_error:
  "ndim x \<notin> {3, 4, 5} \<Longrightarrow> \<exists>m. transpose_spatial_inputs x = Inl (ValueError m)"
  by (auto simp: transpose_spatial_inputs_def)

lemma conv_call_channels_last_rank:
  assumes "ndim inputs \<notin> {3, 4, 5}"
    and "standardize_data_format dflt data_format = Inr ''channels_last''"
  shows "\<exists>m. conv_call tnn_pad dflt inputs kernel_t strides padding data_format
              dilation_rate = Inl (ValueError m)"
proof (cases "standardize_tuple strides (int (ndim inputs) - 2) ''strides''")
  case (Inl e)
  with standardize_tuple_error [OF Inl] show ?thesis
    by (auto simp: conv_call_def bind_err_def)
next
  case (Inr st)
  with transpose_spatial_inputs_error [OF assms(1)] assms(2) show ?thesis
    by (auto simp: conv_call_def bind_err_def)
qed

lemma max_pool_call_channels_last_rank:
  assumes "ndim inputs \<notin> {3, 4, 5}"
    and "standardize_data_format dflt data_format = Inr ''channels_last''"
  shows "\<exists>m. max_pool_call tnn_pad dflt device inputs pool_size strides padding
              data_format = Inl (ValueError m)"
proof (cases "standardize_tuple pool_size (int (ndim inputs) - 2) ''pool_size''")
  case (Inl e)
  with standardize_tuple_error [OF Inl] show ?thesis
    by (auto simp: max_pool_call_def bind_err_def)
next
  case ps: (Inr ps)
  show ?thesis
  proof (cases "case strides of None \<Rightarrow> Inr ps
                | Some s \<Rightarrow> standardize_tuple s (int (ndim inputs) - 2) ''strides''")
    case (Inl e)
    then have "\<exists>m. e = ValueError m"
      by (cases strides) (auto dest: standardize_tuple_error)
    with Inl ps show ?thesis
      by (auto simp: max_pool_call_def bind_err_def)
  next
    case (Inr st)
    with ps transpose_spatial_inputs_error [OF assms(1)] assms(2) show ?thesis
      by (auto simp: max_pool_call_def bind_err_def)
  qed
qed

lemma average_pool_call_channels_last_rank:
  assumes "ndim inputs \<notin> {3, 4, 5}"
    and "standardize_data_format dflt data_format = Inr ''channels_last''"
  shows "\<exists>m. average_pool_call tnn_pad dflt inputs pool_size strides padding data_format
              = Inl (ValueError m)"
proof (cases "standardize_tuple pool_size (int (ndim inputs) - 2) ''pool_size''")
  case (Inl e)
  with standardize_tuple_error [OF Inl] show ?thesis
    by (auto simp: average_pool_call_def bind_err_def)
next
  case ps: (Inr ps)
  show ?thesis
  proof (cases "case strides of None \<Rightarrow> Inr ps
                | Some s \<Rightarrow> standardize_tuple s (int (ndim inputs) - 2) ''strides''")
    case (Inl e)
    then have "\<exists>m. e = ValueError m"
      by (cases strides) (auto dest: standardize_tuple_error)
    with Inl ps show ?thesis
      by (auto simp: average_pool_call_def bind_err_def)
  next
    case (Inr st)
    with ps transpose_spatial_inputs_error [OF assms(1)] assms(2) show ?thesis
      by (auto simp: average_pool_call_def bind_err_def)
  qed
qed

lemma conv_call_rank:
  assumes "conv_call tnn_pad dflt inputs kernel_t strides padding data_format dilation_rate
             = Inr c"
  shows "ndim inputs \<in> {3, 4, 5}"
  using assms
  by (auto simp: conv_call_def Let_def bind_err_eq_Inr split: if_splits prod.splits)

lemma max_pool_call_rank:
  assumes "max_pool_call tnn_pad dflt device inputs pool_size strides padding data_format
             = Inr c"
  shows "ndim inputs \<in> {3, 4, 5}"
  using assms
  by (auto simp: max_pool_call_def Let_def bind_err_eq_Inr split: if_splits prod.splits)

lemma average_pool_call_rank:
  assumes "average_pool_call tnn_pad dflt inputs pool_size strides padding data_format
             = Inr c"
  shows "ndim inputs \<in> {3, 4, 5}"
proof (cases "padding = ''same''")
  case True
  from average_pool_call_same_Inr [OF assms [unfolded True]] obtain fmt x where
    x: "(if fmt = ''channels_last'' then transpose_spatial_inputs inputs else Inr inputs) = Inr x"
    and n: "length (drop 2 (shape x)) \<in> {1, 2, 3}"
    by blast
  show ?thesis
  proof (cases "fmt = ''channels_last''")
    case True
    with x have "transpose_spatial_inputs inputs = Inr x" by simp
    then show ?thesis by (rule transpose_spatial_inputs_rank)
  next
    case False
    with x have "x = inputs" by simp
    with n show ?thesis by (auto simp: length_shape)
  qed
next
  case False
  with assms show ?thesis
    by (auto simp: average_pool_call_def Let_def bind_err_eq_Inr split: if_splits)
qed

lemma conv_rank_one:
  "conv tnn_pad native ''channels_last'' (contiguous [5] [1, 2, 3, 4, 5 :: int])
        (contiguous [1, 1, 1] [1]) (IntArg 1) ''valid'' (Some ''channels_first'') (IntArg 1)
      = Inl IndexError"
  by (simp add: conv_def conv_call_def standardize_tuple_def standardize_data_format_def
        bind_err_def ndim_def contiguous_def transpose_conv_kernel_def
        transpose_spatial_inputs_def shape_def permute_def normalize_dim_def py_index_def
        py_position_def)

lemma depthwise_kernel_111:
  "depthwise_conv tnn_pad native dflt inputs (contiguous [1, 1, 1] [1::int]) strides padding
     data_format dilation_rate
   = conv tnn_pad native dflt inputs (contiguous [1, 1, 1] [1]) strides padding data_format
       dilation_rate"
proof -
  have "reshape (contiguous [1, 1, 1] [1::int]) [1, 1, 1] = Inr (contiguous [1, 1, 1] [1])"
    by (simp add: reshape_def numel_def shape_contiguous elements_contiguous)
  then show ?thesis
    by (simp add: depthwise_conv_def shape_contiguous py_index_def py_position_def
          bind_err_Inr)
qed

text \<open>
  C8. The claim asks for a \<^verbatim>\<open>ValueError\<close> on every input whose rank is not 3, 4 or 5,
  under both data formats. On an input of rank 1 in the channels-first layout \<^verbatim>\<open>conv\<close>
  reads \<^verbatim>\<open>inputs.shape[1]\<close> before it reaches the rank dispatch and raises \<^verbatim>\<open>IndexError\<close>,
  and so do \<^verbatim>\<open>depthwise_conv\<close> and \<^verbatim>\<open>separable_conv\<close>, whatever the engine; the same
  input in the channels-last layout raises the \<^verbatim>\<open>ValueError\<close>.
\<close>

theorem conv_rank_one_channels_first:
  "(\<forall>tnn_pad native.
      conv tnn_pad native ''channels_last'' (contiguous [5] [1, 2, 3, 4, 5 :: int])
        (contiguous [1, 1, 1] [1]) (IntArg 1) ''valid'' (Some ''channels_first'') (IntArg 1)
      = Inl IndexError) \<and>
   (\<forall>tnn_pad native.
      depthwise_conv tnn_pad native ''channels_last'' (contiguous [5] [1, 2, 3, 4, 5 :: int])
        (contiguous [1, 1, 1] [1]) (IntArg 1) ''valid'' (Some ''channels_first'') (IntArg 1)
      = Inl IndexError) \<and>
   (\<forall>tnn_pad native.
      separable_conv tnn_pad native ''channels_last'' (contiguous [5] [1, 2, 3, 4, 5 :: int])
        (contiguous [1, 1, 1] [1]) (contiguous [1, 1, 1] [1]) (IntArg 1) ''valid''
        (Some ''channels_first'') (IntArg 1)
      = Inl IndexError) \<and>
   (\<forall>tnn_pad. \<exists>m.
      conv_call tnn_pad ''channels_last'' (contiguous [5] [1, 2, 3, 4, 5 :: int])
        (contiguous [1, 1, 1] [1]) (IntArg 1) ''valid'' (Some ''channels_last'') (IntArg 1)
      = Inl (ValueError m))"
proof -
  have "\<exists>m. conv_call tnn_pad ''channels_last'' (contiguous [5] [1, 2, 3, 4, 5 :: int])
        (contiguous [1, 1, 1] [1]) (IntArg 1) ''valid'' (Some ''channels_last'') (IntArg 1)
      = Inl (ValueError m)" for tnn_pad
    by (rule conv_call_channels_last_rank)
       (simp_all add: ndim_contiguous standardize_data_format_def)
  then show ?thesis
    by (simp only: separable_conv_def depthwise_kernel_111 conv_rank_one bind_err_Inl
          simp_thms)
qed

section \<open>Softmax over the whole tensor\<close>

lemma prod_list_int: "prod_list (map int s) = int (prod_list s)"
  by (induction s) auto

lemma reshape_flat: "reshape x [- 1] = Inr (contiguous [numel x] (elements x))"
  by (simp add: reshape_def)

lemma reshape_to_shape:
  assumes "numel w = prod_list s"
  shows "reshape w (map int s) = Inr (contiguous s (elements w))"
proof -
  have "filter (\<lambda>d. d = - 1) (map int s) = []" by (induction s) auto
  moreover have "filter (\<lambda>d. d \<noteq> - 1) (map int s) = map int s" by (induction s) auto
  moreover have "\<not> list_ex (\<lambda>d. d < - 1) (map int s)" by (induction s) auto
  ultimately show ?thesis
    using assms by (simp add: reshape_def prod_list_int comp_def)
qed

lemma elements_reshape_to_shape:
  assumes "numel w = prod_list s"
  shows "elements (contiguous s (elements w)) = elements w"
  by (rule elements_contiguous) (simp add: length_elements assms)

text \<open>
  C7. With \<^verbatim>\<open>axis=None\<close>, \<^verbatim>\<open>softmax\<close> and \<^verbatim>\<open>log_softmax\<close> hand the primitive one vector: the
  tensor of the single axis of length \<open>numel x\<close> that holds all elements of \<open>x\<close> in
  row-major order, with the dimension \<open>-1\<close>. Whatever the primitive returns with as many
  elements is reshaped to a result of the shape of \<open>x\<close> with the same elements in the same
  order. The normalisation is therefore over all elements, not over the last axis.
\<close>

theorem softmax_axis_none:
  "shape (contiguous [numel x] (elements x)) = [numel x] \<and>
   elements (contiguous [numel x] (elements x)) = elements x \<and>
   softmax E x None =
     bind_err (tnn_softmax E (contiguous [numel x] (elements x)) (- 1))
       (\<lambda>output. reshape output (map int (shape x))) \<and>
   log_softmax E x None =
     bind_err (tnn_log_softmax E (contiguous [numel x] (elements x)) (- 1))
       (\<lambda>output. reshape output (map int (shape x))) \<and>
   (\<forall>w :: 'a tensor. numel w = numel x \<longrightarrow>
      (\<exists>r. reshape w (map int (shape x)) = Inr r \<and> shape r = shape x \<and>
           elements r = elements w))"
  for x :: "'a tensor"
proof (intro conjI allI impI)
  show "shape (contiguous [numel x] (elements x)) = [numel x]" by (rule shape_contiguous)
  show "elements (contiguous [numel x] (elements x)) = elements x"
    by (rule elements_contiguous) (simp add: length_elements)
  show "softmax E x None =
     bind_err (tnn_softmax E (contiguous [numel x] (elements x)) (- 1))
       (\<lambda>output. reshape output (map int (shape x)))"
    by (simp add: softmax_def reshape_flat bind_err_Inr)
  show "log_softmax E x None =
     bind_err (tnn_log_softmax E (contiguous [numel x] (elements x)) (- 1))
       (\<lambda>output. reshape output (map int (shape x)))"
    by (simp add: log_softmax_def reshape_flat bind_err_Inr)
next
  fix w :: "'a tensor"
  assume "numel w = numel x"
  then have n: "numel w = prod_list (shape x)" by (simp add: numel_def)
  show "\<exists>r. reshape w (map int (shape x)) = Inr r \<and> shape r = shape x \<and> elements r = elements w"
    using reshape_to_shape [OF n] elements_reshape_to_shape [OF n]
    by (simp add: shape_contiguous)
qed

text \<open>
  On four zeros in a tensor of shape \<open>(2, 2)\<close> the exact engine gives \<open>1/4\<close> everywhere, where
  a normalisation over the last axis would give \<open>1/2\<close>.
\<close>

theorem softmax_axis_none_witness:
  "softmax ideal_engine (contiguous [2, 2] [0, 0, 0, 0]) None =
     Inr (contiguous [2, 2] [1 / 4, 1 / 4, 1 / 4, 1 / 4]) \<and>
   log_softmax ideal_engine (contiguous [2, 2] [0, 0, 0, 0]) None =
     Inr (contiguous [2, 2] [- ln 4, - ln 4, - ln 4, - ln 4])"
proof -
  have e: "elements (contiguous [2, 2] [0, 0, 0, 0 :: real]) = [0, 0, 0, 0]"
    by (rule elements_contiguous) simp
  have n: "numel (contiguous [2, 2] [0, 0, 0, 0 :: real]) = 4"
    by (simp add: numel_def shape_contiguous)
  have s: "tnn_softmax ideal_engine (contiguous [4] [0, 0, 0, 0]) (- 1) =
           Inr (contiguous [4] [1 / 4, 1 / 4, 1 / 4, 1 / 4])"
    by (simp add: ideal_engine_def on_vector_def ndim_contiguous shape_contiguous
          elements_contiguous)
  have l: "tnn_log_softmax ideal_engine (contiguous [4] [0, 0, 0, 0]) (- 1) =
           Inr (contiguous [4] [- ln 4, - ln 4, - ln 4, - ln 4])"
    by (simp add: ideal_engine_def on_vector_def ndim_contiguous shape_contiguous
          elements_contiguous)
  have w1: "numel (contiguous [4] [1 / 4, 1 / 4, 1 / 4, 1 / 4 :: real]) =
            numel (contiguous [2, 2] [0, 0, 0, 0 :: real])"
    and w2: "numel (contiguous [4] [- ln 4, - ln 4, - ln 4, - ln 4 :: real]) =
            numel (contiguous [2, 2] [0, 0, 0, 0 :: real])"
    by (simp_all add: numel_def shape_contiguous)
  have e1: "elements (contiguous [4] [1 / 4, 1 / 4, 1 / 4, 1 / 4 :: real]) = [1 / 4, 1 / 4, 1 / 4, 1 / 4]"
    and e2: "elements (contiguous [4] [- ln 4, - ln 4, - ln 4, - ln 4 :: real]) = [- ln 4, - ln 4, - ln 4, - ln 4]"
    by (rule elements_contiguous, simp)+
  have r1: "reshape (contiguous [4] [1 / 4, 1 / 4, 1 / 4, 1 / 4 :: real]) [2, 2] =
            Inr (contiguous [2, 2] [1 / 4, 1 / 4, 1 / 4, 1 / 4])"
    using reshape_to_shape [of "contiguous [4] [1 / 4, 1 / 4, 1 / 4, 1 / 4 :: real]" "[2, 2]"]
    by (simp add: numel_def shape_contiguous e1)
  have r2: "reshape (contiguous [4] [- ln 4, - ln 4, - ln 4, - ln 4 :: real]) [2, 2] =
            Inr (contiguous [2, 2] [- ln 4, - ln 4, - ln 4, - ln 4])"
    using reshape_to_shape [of "contiguous [4] [- ln 4, - ln 4, - ln 4, - ln 4 :: real]" "[2, 2]"]
    by (simp add: numel_def shape_contiguous e2)
  note t = softmax_axis_none [of "contiguous [2, 2] [0, 0, 0, 0 :: real]" ideal_engine]
  from t show ?thesis
    unfolding e n s l bind_err_Inr shape_contiguous
    by (simp add: r1 r2)
qed

section \<open>Categorical cross-entropy\<close>

text \<open>
  C6. \<^verbatim>\<open>categorical_crossentropy\<close> raises a \<^verbatim>\<open>ValueError\<close> when the shapes of \<^verbatim>\<open>target\<close> and
  \<^verbatim>\<open>output\<close> differ or the rank is less than 1. Otherwise its result is the negated sum
  along \<^verbatim>\<open>axis\<close> of \<^verbatim>\<open>target * log_prob\<close>, where \<^verbatim>\<open>log_prob\<close> is the log-softmax of the
  engine along \<^verbatim>\<open>axis\<close> under \<^verbatim>\<open>from_logits\<close>, and otherwise the logarithm of \<^verbatim>\<open>output\<close>
  divided by its sum along \<^verbatim>\<open>axis\<close> (dimension kept) and clipped into
  \<open>[epsilon, 1 - epsilon]\<close>.
\<close>

theorem categorical_crossentropy_contract:
  "(shape target \<noteq> shape output \<or> length (shape target) < 1 \<longrightarrow>
      (\<exists>m. categorical_crossentropy E eps target output from_logits axis
             = Inl (ValueError m))) \<and>
   (shape target = shape output \<and> 1 \<le> length (shape target) \<longrightarrow>
      categorical_crossentropy E eps target output from_logits axis =
        bind_err (if from_logits then tnn_log_softmax E output axis
                  else bind_err (torch_sum E output axis True) (\<lambda>total.
                       bind_err (tensor_div E output total) (\<lambda>normalized.
                       bind_err (torch_clip E normalized eps (1 - eps)) (torch_log E))))
          (\<lambda>log_prob.
        bind_err (tensor_mul E target log_prob) (\<lambda>weighted.
        bind_err (torch_sum E weighted axis False) (tensor_neg E))))"
  by (auto simp: categorical_crossentropy_def)

theorem categorical_crossentropy_contract_witness:
  "shape (contiguous [2] [0, 1 :: real]) = shape (contiguous [2] [1, 1 :: real]) \<and>
   1 \<le> length (shape (contiguous [2] [0, 1 :: real])) \<and>
   categorical_crossentropy ideal_engine (1 / 10 ^ 7) (contiguous [2] [0, 1])
     (contiguous [2] [1, 1]) False (- 1) = Inr (contiguous [] [- ln (1 / 2)]) \<and>
   shape (contiguous [2] [0, 1 :: real]) \<noteq> shape (contiguous [3] [1, 1, 1 :: real]) \<and>
   (\<exists>m. categorical_crossentropy ideal_engine (1 / 10 ^ 7) (contiguous [2] [0, 1])
          (contiguous [3] [1, 1, 1]) False (- 1) = Inl (ValueError m)) \<and>
   length (shape (contiguous [] [1 :: real])) < 1 \<and>
   (\<exists>m. categorical_crossentropy ideal_engine (1 / 10 ^ 7) (contiguous [] [1])
          (contiguous [] [1]) False (- 1) = Inl (ValueError m))"
proof -
  have e: "elements (contiguous [2] [1, 1 :: real]) = [1, 1]"
    "elements (contiguous [2] [0, 1 :: real]) = [0, 1]"
    "elements (contiguous [1] [2 :: real]) = [2]"
    "elements (contiguous [Suc 0] [2 :: real]) = [2]"
    "elements (contiguous [2] [1 / 2, 1 / 2 :: real]) = [1 / 2, 1 / 2]"
    "elements (contiguous [2] [ln (1 / 2), ln (1 / 2) :: real]) = [ln (1 / 2), ln (1 / 2)]"
    "elements (contiguous [2] [0, ln (1 / 2) :: real]) = [0, ln (1 / 2)]"
    "elements (contiguous [] [ln (1 / 2) :: real]) = [ln (1 / 2)]"
    by (rule elements_contiguous, simp)+
  have 1: "torch_sum ideal_engine (contiguous [2] [1, 1]) (- 1) True = Inr (contiguous [1] [2])"
    by (simp add: ideal_engine_def on_vector_def ndim_contiguous e)
  have 2: "tensor_div ideal_engine (contiguous [2] [1, 1]) (contiguous [1] [2]) =
           Inr (contiguous [2] [1 / 2, 1 / 2])"
    by (simp add: ideal_engine_def pointwise_def shape_contiguous numel_def e)
  have 3: "torch_clip ideal_engine (contiguous [2] [1 / 2, 1 / 2]) (1 / 10 ^ 7) (1 - 1 / 10 ^ 7) =
           Inr (contiguous [2] [1 / 2, 1 / 2])"
    by (simp add: ideal_engine_def shape_contiguous e)
  have 4: "torch_log ideal_engine (contiguous [2] [1 / 2, 1 / 2]) =
           Inr (contiguous [2] [ln (1 / 2), ln (1 / 2)])"
    by (simp add: ideal_engine_def shape_contiguous e)
  have 5: "tensor_mul ideal_engine (contiguous [2] [0, 1]) (contiguous [2] [ln (1 / 2), ln (1 / 2)]) =
           Inr (contiguous [2] [0, ln (1 / 2)])"
    by (simp add: ideal_engine_def pointwise_def shape_contiguous e)
  have 6: "torch_sum ideal_engine (contiguous [2] [0, ln (1 / 2)]) (- 1) False =
           Inr (contiguous [] [ln (1 / 2)])"
    by (simp add: ideal_engine_def on_vector_def ndim_contiguous e)
  have 7: "tensor_neg ideal_engine (contiguous [] [ln (1 / 2)]) =
           Inr (contiguous [] [- ln (1 / 2)])"
    by (simp add: ideal_engine_def shape_contiguous e)
  have h: "shape (contiguous [2] [0, 1 :: real]) = shape (contiguous [2] [1, 1 :: real]) \<and>
           1 \<le> length (shape (contiguous [2] [0, 1 :: real]))"
    by (simp add: shape_contiguous)
  have h2: "shape (contiguous [2] [0, 1 :: real]) \<noteq> shape (contiguous [3] [1, 1, 1 :: real]) \<or>
            length (shape (contiguous [2] [0, 1 :: real])) < 1"
    by (simp add: shape_contiguous)
  have h3: "shape (contiguous [] [1 :: real]) \<noteq> shape (contiguous [] [1 :: real]) \<or>
            length (shape (contiguous [] [1 :: real])) < 1"
    by (simp add: shape_contiguous)
  have "categorical_crossentropy ideal_engine (1 / 10 ^ 7) (contiguous [2] [0, 1])
          (contiguous [2] [1, 1]) False (- 1) = Inr (contiguous [] [- ln (1 / 2)])"
    using categorical_crossentropy_contract
            [of "contiguous [2] [0, 1]" "contiguous [2] [1, 1]" ideal_engine "1 / 10 ^ 7"
                False "- 1", THEN conjunct2, rule_format, OF h]
    unfolding if_False 1 bind_err_Inr 2 3 4 5 6 7 .
  moreover have "\<exists>m. categorical_crossentropy ideal_engine (1 / 10 ^ 7) (contiguous [2] [0, 1])
          (contiguous [3] [1, 1, 1]) False (- 1) = Inl (ValueError m)"
    using categorical_crossentropy_contract
            [of "contiguous [2] [0, 1]" "contiguous [3] [1, 1, 1]" ideal_engine "1 / 10 ^ 7"
                False "- 1", THEN conjunct1, rule_format, OF h2] .
  moreover have "\<exists>m. categorical_crossentropy ideal_engine (1 / 10 ^ 7) (contiguous [] [1])
          (contiguous [] [1]) False (- 1) = Inl (ValueError m)"
    using categorical_crossentropy_contract
            [of "contiguous [] [1]" "contiguous [] [1]" ideal_engine "1 / 10 ^ 7"
                False "- 1", THEN conjunct1, rule_format, OF h3] .
  ultimately show ?thesis by (simp add: shape_contiguous)
qed

section \<open>One-hot encoding of every entry\<close>

lemma contiguous_strides_snoc:
  "contiguous_strides (s @ [n]) = map (\<lambda>k. k * n) (contiguous_strides s) @ [1]"
  by (induction s) (auto simp: algebra_simps)

lemma axes_contiguous_snoc_one:
  "axes (contiguous (s @ [1]) d) = axes (contiguous s d) @ [(1, 1)]"
  by (simp add: contiguous_def contiguous_strides_snoc length_contiguous_strides)

lemma broadcast_rev_same: "broadcast_rev xs xs = Inr xs"
  by (induction xs) auto

lemma broadcast_shapes_last: "broadcast_shapes (s @ [1]) (s @ [n]) = Inr (s @ [n])"
  by (simp add: broadcast_shapes_def broadcast_rev_same)

lemma expand_rev_same: "expand_rev axs (map fst axs) = axs"
  by (induction axs) auto

lemma expand_to_same: "expand_to t (shape t) = t"
  by (simp add: expand_to_def shape_def rev_map expand_rev_same)

lemma expand_to_last:
  assumes "axes t = A @ [(1, st)]"
  shows "axes (expand_to t (map fst A @ [n])) = A @ [if n = 1 then (1, st) else (n, 0)]"
  using expand_rev_same [of "rev A"]
  by (auto simp: expand_to_def assms rev_map)

lemma storage_expand_to: "storage (expand_to t shp) = storage t"
  by (simp add: expand_to_def)

text \<open>The elements of a view whose last axis has the given length and stride.\<close>

lemma elements_last_axis:
  assumes "axes t = A @ [(n, st)]"
  shows "elements t =
         concat (map (\<lambda>idx. map (\<lambda>j. storage t ! (flat_index idx (map snd A) + j * st)) [0..<n])
                   (indices (map fst A)))"
proof -
  have sh: "shape t = map fst A @ [n]" and str: "strides_of t = map snd A @ [st]"
    by (simp_all add: shape_def strides_of_def assms)
  have "elements t =
        concat (map (\<lambda>idx. map (\<lambda>j. elem t (idx @ [j])) [0..<n]) (indices (map fst A)))"
    by (simp add: elements_def sh indices_snoc map_concat comp_def)
  also have "\<dots> = concat (map (\<lambda>idx. map (\<lambda>j. storage t ! (flat_index idx (map snd A) + j * st))
                                      [0..<n]) (indices (map fst A)))"
  proof -
    have "map (\<lambda>idx. map (\<lambda>j. elem t (idx @ [j])) [0..<n]) (indices (map fst A)) =
          map (\<lambda>idx. map (\<lambda>j. storage t ! (flat_index idx (map snd A) + j * st)) [0..<n])
            (indices (map fst A))"
    proof (rule map_cong [OF refl])
      fix idx
      assume "idx \<in> set (indices (map fst A))"
      then have "length idx = length (map snd A)" using length_of_index by fastforce
      then show "map (\<lambda>j. elem t (idx @ [j])) [0..<n] =
                 map (\<lambda>j. storage t ! (flat_index idx (map snd A) + j * st)) [0..<n]"
        by (simp add: elem_def str flat_index_snoc)
    qed
    then show ?thesis by (rule arg_cong)
  qed
  finally show ?thesis .
qed

lemma elements_broadcast_last:
  assumes "axes t = A @ [(n, st)]" "n = 1 \<or> st = 0"
  shows "elements t = concat (map (replicate n) (elements (t\<lparr>axes := A\<rparr>)))"
proof -
  have "map (\<lambda>j. storage t ! (flat_index idx (map snd A) + j * st)) [0..<n] =
        replicate n (storage t ! flat_index idx (map snd A))" for idx
  proof (cases "st = 0")
    case True
    then show ?thesis by (simp add: map_replicate_const)
  next
    case False
    with assms(2) have "n = 1" by simp
    then show ?thesis by simp
  qed
  then have "elements t =
             concat (map (\<lambda>idx. replicate n (storage t ! flat_index idx (map snd A)))
                       (indices (map fst A)))"
    by (simp add: elements_last_axis [OF assms(1)])
  also have "\<dots> = concat (map (replicate n) (elements (t\<lparr>axes := A\<rparr>)))"
    by (simp add: elements_def elem_def shape_def strides_of_def comp_def)
  finally show ?thesis .
qed

lemma concat_replicate_one: "concat (map (replicate (Suc 0)) xs) = xs"
  by (induction xs) auto

lemma elements_expand_dims_last:
  "elements (t\<lparr>axes := axes t @ [(1, st)]\<rparr>) = elements t"
proof -
  have "elements (t\<lparr>axes := axes t @ [(1, st)]\<rparr>) =
        concat (map (replicate 1) (elements (t\<lparr>axes := axes t @ [(1, st)]\<rparr>\<lparr>axes := axes t\<rparr>)))"
    by (rule elements_broadcast_last [where st = st]) simp_all
  then show ?thesis by (simp add: concat_replicate_one)
qed

lemma expand_dims_last:
  "expand_dims x (- 1) = Inr (x\<lparr>axes := axes x @ [(1, 1)]\<rparr>)"
  by (simp add: expand_dims_def Let_def ndim_def)

lemma zip_concat_map:
  assumes "\<And>x. x \<in> set xs \<Longrightarrow> length (g x) = length (h x)"
  shows "zip (concat (map g xs)) (concat (map h xs)) = concat (map (\<lambda>x. zip (g x) (h x)) xs)"
  using assms by (induction xs) auto

lemma zip_replicate_left:
  "length ys = n \<Longrightarrow> zip (replicate n b) ys = map (Pair b) ys"
  by (induction ys arbitrary: n) auto


lemma length_elements_shape: "length (elements t) = prod_list (shape t)"
  by (simp add: length_elements numel_def)

lemma elements_maximum: "elements (maximum x c) = map (\<lambda>v. max v c) (elements x)"
  unfolding maximum_def by (rule elements_contiguous) (simp add: length_elements_shape)

lemma shape_maximum: "shape (maximum x c) = shape x"
  by (simp add: maximum_def shape_contiguous)

lemma tnn_one_hot_in_range:
  assumes "0 < C" "\<forall>v \<in> set (elements t). 0 \<le> v \<and> v < C"
  shows "tnn_one_hot t C =
         Inr (contiguous (shape t @ [nat C])
                (concat (map (\<lambda>v. map (\<lambda>j. if int j = v then 1 else 0) [0..<nat C])
                           (elements t))))"
proof (cases "elements t = []")
  case True
  with assms(1) show ?thesis by (simp add: tnn_one_hot_def)
next
  case False
  have "\<not> list_ex (\<lambda>v. v < 0) (elements t)" "\<not> list_ex (\<lambda>v. C \<le> v) (elements t)"
    using assms(2) by (auto simp: list_ex_iff)
  with False assms(1) show ?thesis by (simp add: tnn_one_hot_def Let_def)
qed

lemma tnn_one_hot_too_large:
  assumes "C \<noteq> - 1" "\<forall>v \<in> set (elements t). 0 \<le> v" "\<exists>v \<in> set (elements t). C \<le> v"
  shows "tnn_one_hot t C =
         Inl (RuntimeError ''Class values must be smaller than num_classes.'')"
proof -
  have "elements t \<noteq> []" using assms(3) by auto
  moreover have "\<not> list_ex (\<lambda>v. v < 0) (elements t)" using assms(2) by (auto simp: list_ex_iff)
  moreover have "list_ex (\<lambda>v. C \<le> v) (elements t)" using assms(3) by (auto simp: list_ex_iff)
  ultimately show ?thesis using assms(1) by (simp add: tnn_one_hot_def Let_def)
qed

lemma greater_equal_expanded:
  "greater_equal (x\<lparr>axes := axes x @ [(1, 1)]\<rparr>) c =
   contiguous (shape x @ [1]) (map (\<lambda>v. c \<le> v) (elements x))"
proof -
  have "shape (x\<lparr>axes := axes x @ [(1, 1)]\<rparr>) = shape x @ [1]" by (simp add: shape_def)
  then show ?thesis
    unfolding greater_equal_def elements_expand_dims_last by (rule arg_cong2 [OF _ refl])
qed

lemma where_select_rows:
  assumes "length bs = prod_list s" "length d = prod_list s * n"
  shows "where_select (contiguous (s @ [1]) bs) (contiguous (s @ [n]) d) c =
         Inr (contiguous (s @ [n])
                (map2 (\<lambda>b v. if b then v else c) (concat (map (replicate n) bs)) d))"
proof -
  let ?cond = "contiguous (s @ [1]) bs"
  let ?t = "contiguous (s @ [n]) d"
  let ?A = "axes (contiguous s bs)"
  have A: "map fst ?A = s" using shape_contiguous [of s bs] by (simp add: shape_def)
  have "expand_to ?t (s @ [n]) = ?t"
    using expand_to_same [of ?t] by (simp add: shape_contiguous)
  moreover have "elements ?t = d"
    by (rule elements_contiguous) (simp add: assms(2))
  moreover have "elements (expand_to ?cond (s @ [n])) = concat (map (replicate n) bs)"
  proof -
    let ?e = "expand_to ?cond (s @ [n])"
    have ax: "axes ?e = ?A @ [if n = 1 then (1, 1) else (n, 0)]"
      using expand_to_last [OF axes_contiguous_snoc_one, of s bs n] unfolding A .
    have "elements ?e = concat (map (replicate n) (elements (?e\<lparr>axes := ?A\<rparr>)))"
    proof (cases "n = 1")
      case True
      with ax show ?thesis by (intro elements_broadcast_last [where st = 1]) simp_all
    next
      case False
      with ax show ?thesis by (intro elements_broadcast_last [where st = 0]) simp_all
    qed
    moreover have "?e\<lparr>axes := ?A\<rparr> = contiguous s bs"
      by (simp add: expand_to_def contiguous_def)
    moreover have "elements (contiguous s bs) = bs"
      by (rule elements_contiguous) (simp add: assms(1))
    ultimately show ?thesis by simp
  qed
  ultimately show ?thesis
    unfolding where_select_def shape_contiguous broadcast_shapes_last by simp
qed


lemma length_concat_rows:
  assumes "\<And>x. length (f x) = n"
  shows "length (concat (map f xs)) = length xs * n"
  by (induction xs) (simp_all add: assms)

lemma masked_rows:
  "map2 (\<lambda>b v. if b then v else 0)
     (concat (map (replicate n) (map (\<lambda>v. 0 \<le> v) vals)))
     (concat (map (\<lambda>v. map (\<lambda>j. if int j = v then 1 else 0) [0..<n])
                (map (\<lambda>v. max v 0) vals))) =
   concat (map (\<lambda>k. map (\<lambda>j. if 0 \<le> k \<and> int j = k then 1 else (0::int)) [0..<n])
             (vals :: int list))"
proof -
  let ?row = "\<lambda>v. map (\<lambda>j. if int j = v then 1 else (0::int)) [0..<n]"
  have "zip (concat (map (\<lambda>k. replicate n (0 \<le> k)) vals))
            (concat (map (\<lambda>k. ?row (max k 0)) vals)) =
        concat (map (\<lambda>k. zip (replicate n (0 \<le> k)) (?row (max k 0))) vals)"
    by (rule zip_concat_map) simp
  also have "\<dots> = concat (map (\<lambda>k. map (Pair (0 \<le> k)) (?row (max k 0))) vals)"
    by (simp add: zip_replicate_left)
  finally have "map2 (\<lambda>b v. if b then v else 0)
                  (concat (map (\<lambda>k. replicate n (0 \<le> k)) vals))
                  (concat (map (\<lambda>k. ?row (max k 0)) vals)) =
                concat (map (\<lambda>k. map (\<lambda>v. if 0 \<le> k then v else 0) (?row (max k 0))) vals)"
    by (simp add: map_concat comp_def)
  also have "\<dots> = concat (map (\<lambda>k. map (\<lambda>j. if 0 \<le> k \<and> int j = k then 1 else 0) [0..<n])
                            vals)"
    by (rule arg_cong [where f = concat], rule map_cong [OF refl]) (auto simp: max_def)
  finally show ?thesis by (simp add: comp_def)
qed

lemma convert_dtype_contiguous:
  "length d = prod_list s \<Longrightarrow> convert_dtype cast (contiguous s d) = contiguous s (map cast d)"
  by (simp add: convert_dtype_def shape_contiguous elements_contiguous)

lemma one_hot_last_axis:
  assumes "0 < C" "\<forall>k \<in> set (elements x). k < C"
  shows "one_hot cast x C (- 1) =
         Inr (contiguous (shape x @ [nat C])
                (map cast
                   (concat (map (\<lambda>k. map (\<lambda>j. if 0 \<le> k \<and> int j = k then 1 else 0)
                                        [0..<nat C]) (elements x)))))"
proof -
  let ?vals = "elements x"
  let ?s = "shape x"
  let ?n = "nat C"
  let ?row = "\<lambda>v. map (\<lambda>j. if int j = v then 1 else (0::int)) [0..<?n]"
  let ?d = "concat (map ?row (map (\<lambda>v. max v 0) ?vals))"
  let ?bs = "map (\<lambda>v. 0 \<le> v) ?vals"
  let ?out = "concat (map (\<lambda>k. map (\<lambda>j. if 0 \<le> k \<and> int j = k then 1 else (0::int)) [0..<?n])
                        ?vals)"
  have oh: "tnn_one_hot (maximum x 0) C = Inr (contiguous (?s @ [?n]) ?d)"
    using tnn_one_hot_in_range [of C "maximum x 0"] assms
    by (simp add: elements_maximum shape_maximum)
  have ex: "expand_dims x (- 1) = Inr (x\<lparr>axes := axes x @ [(1, 1)]\<rparr>)"
    by (rule expand_dims_last)
  have ge: "greater_equal (x\<lparr>axes := axes x @ [(1, 1)]\<rparr>) 0 = contiguous (?s @ [1]) ?bs"
    by (rule greater_equal_expanded)
  have len1: "length ?bs = prod_list ?s" by (simp add: length_elements_shape)
  have len2: "length ?d = prod_list ?s * ?n"
    by (simp add: length_concat_rows length_elements_shape)
  have len3: "length ?out = prod_list (?s @ [?n])"
    by (simp add: length_concat_rows length_elements_shape)
  have wh: "where_select (contiguous (?s @ [1]) ?bs) (contiguous (?s @ [?n]) ?d) 0 =
            Inr (contiguous (?s @ [?n]) ?out)"
    unfolding where_select_rows [OF len1 len2] masked_rows ..
  have cv: "convert_dtype cast (contiguous (?s @ [?n]) ?out) =
            contiguous (?s @ [?n]) (map cast ?out)"
    using len3 by (rule convert_dtype_contiguous)
  show ?thesis
    unfolding one_hot_def oh ex ge wh bind_err_Inr Let_def cv by simp
qed


lemma nth_concat_rows:
  assumes "\<And>x. length (g x) = n" "p < length xs" "j < n"
  shows "concat (map g xs) ! (p * n + j) = g (xs ! p) ! j"
  using assms(2)
proof (induction xs arbitrary: p)
  case Nil
  then show ?case by simp
next
  case (Cons x xs)
  show ?case
  proof (cases p)
    case 0
    then show ?thesis using assms(1,3) by (simp add: nth_append)
  next
    case (Suc q)
    then have "q < length xs" using Cons.prems by simp
    from Cons.IH [OF this] have "concat (map g xs) ! (q * n + j) = g (xs ! q) ! j" .
    moreover have "Suc q * n + j = length (g x) + (q * n + j)" by (simp add: assms(1))
    ultimately show ?thesis using Suc by (simp only: list.map concat.simps nth_append_length_plus nth_Cons_Suc)
  qed
qed

lemma flat_index_scale:
  "flat_index idx (map (\<lambda>k. k * n) strs) = flat_index idx strs * n"
proof (induction idx arbitrary: strs)
  case Nil
  show ?case by (simp add: flat_index_def)
next
  case (Cons i idx)
  show ?case
  proof (cases strs)
    case Nil
    then show ?thesis by (simp add: flat_index_def)
  next
    case (Cons st rest)
    with Cons.IH [of rest] show ?thesis by (simp add: flat_index_Cons algebra_simps)
  qed
qed

text \<open>The position of a multi-index in the row-major order is its row-major offset.\<close>

lemma position_of_index:
  assumes "idx \<in> set (indices s)"
  shows "flat_index idx (contiguous_strides s) < prod_list s \<and>
         indices s ! flat_index idx (contiguous_strides s) = idx"
proof -
  from assms obtain p where p: "p < length (indices s)" "indices s ! p = idx"
    by (auto simp: in_set_conv_nth)
  have "map (\<lambda>idx. flat_index idx (contiguous_strides s)) (indices s) ! p = [0..<prod_list s] ! p"
    by (simp only: row_major_positions)
  then have "flat_index idx (contiguous_strides s) = p"
    using p by (simp add: length_indices)
  with p show ?thesis by (simp add: length_indices)
qed

lemma elem_of_elements:
  assumes "idx \<in> set (indices (shape x))"
  shows "elements x ! flat_index idx (contiguous_strides (shape x)) = elem x idx"
  using position_of_index [OF assms] by (simp add: elements_def length_indices)

lemma elem_rows:
  assumes "idx \<in> set (indices s)" "j < n" "length vals = prod_list s"
    and "\<And>k. length (g k) = n"
  shows "elem (contiguous (s @ [n]) (concat (map g vals))) (idx @ [j]) =
         g (vals ! flat_index idx (contiguous_strides s)) ! j"
proof -
  have l: "length idx = length (map (\<lambda>k. k * n) (contiguous_strides s))"
    using length_of_index [OF assms(1)] by (simp add: length_contiguous_strides)
  have "flat_index (idx @ [j]) (contiguous_strides (s @ [n])) =
        flat_index idx (contiguous_strides s) * n + j"
    unfolding contiguous_strides_snoc flat_index_snoc [OF l] flat_index_scale by simp
  moreover have "flat_index idx (contiguous_strides s) < length vals"
    using position_of_index [OF assms(1)] assms(3) by simp
  ultimately show ?thesis
    using nth_concat_rows [of g n "flat_index idx (contiguous_strides s)" vals j] assms(2,4)
    by (simp add: elem_def storage_contiguous strides_contiguous)
qed

text \<open>
  C2, as the claim states it: an entry \<open>k \<ge> 0\<close> gives a one at position \<open>k\<close>, and an
  otherwise invalid entry gives a row of zeros rather than an error. With 3 classes the
  entry 3 is out of range: the primitive of the engine rejects it and \<^verbatim>\<open>one_hot\<close> raises.
\<close>

theorem one_hot_class_out_of_range:
  "one_hot real_of_int (contiguous [1] [3]) 3 (- 1) =
     Inl (RuntimeError ''Class values must be smaller than num_classes.'')"
  by (simp add: one_hot_def tnn_one_hot_def maximum_def contiguous_def elements_def shape_def
        elem_def flat_index_def strides_of_def bind_err_def Let_def)

text \<open>
  C2, amended. With a positive \<^verbatim>\<open>num_classes\<close> and every entry of \<open>x\<close> smaller than
  \<^verbatim>\<open>num_classes\<close>, \<^verbatim>\<open>one_hot(x, num_classes)\<close> returns a tensor with one more axis of length
  \<^verbatim>\<open>num_classes\<close> whose row at the position of an entry \<open>k\<close> is all zero when \<open>k\<close> is
  negative and has a one at position \<open>k\<close> and zeros elsewhere when \<open>0 \<le> k\<close>. When some
  entry is not smaller than \<^verbatim>\<open>num_classes\<close> (and \<^verbatim>\<open>num_classes\<close> is not \<open>-1\<close>), \<^verbatim>\<open>one_hot\<close>
  raises the error of the primitive.
\<close>

theorem one_hot_entries:
  "(0 < num_classes \<and> (\<forall>k \<in> set (elements x). k < num_classes) \<longrightarrow>
      (\<exists>r. one_hot cast x num_classes (- 1) = Inr r \<and>
           shape r = shape x @ [nat num_classes] \<and>
           (\<forall>idx \<in> set (indices (shape x)). \<forall>j < nat num_classes.
              elem r (idx @ [j]) =
                cast (if 0 \<le> elem x idx \<and> int j = elem x idx then 1 else 0)))) \<and>
   (num_classes \<noteq> - 1 \<and> (\<exists>k \<in> set (elements x). num_classes \<le> k) \<longrightarrow>
      one_hot cast x num_classes axis =
        Inl (RuntimeError ''Class values must be smaller than num_classes.''))"
proof (intro conjI impI)
  assume a: "0 < num_classes \<and> (\<forall>k \<in> set (elements x). k < num_classes)"
  let ?n = "nat num_classes"
  let ?g = "\<lambda>k. map (\<lambda>j. cast (if 0 \<le> k \<and> int j = k then 1 else 0)) [0..<?n]"
  let ?r = "contiguous (shape x @ [?n]) (concat (map ?g (elements x)))"
  have r: "one_hot cast x num_classes (- 1) = Inr ?r"
    using one_hot_last_axis [of num_classes x cast] a by (simp add: map_concat comp_def)
  have "elem ?r (idx @ [j]) = cast (if 0 \<le> elem x idx \<and> int j = elem x idx then 1 else 0)"
    if "idx \<in> set (indices (shape x))" "j < ?n" for idx j
    using elem_rows [of idx "shape x" j ?n "elements x" ?g] that
    by (simp add: length_elements_shape elem_of_elements)
  with r show "\<exists>r. one_hot cast x num_classes (- 1) = Inr r \<and>
           shape r = shape x @ [nat num_classes] \<and>
           (\<forall>idx \<in> set (indices (shape x)). \<forall>j < nat num_classes.
              elem r (idx @ [j]) =
                cast (if 0 \<le> elem x idx \<and> int j = elem x idx then 1 else 0))"
    by (simp add: shape_contiguous)
next
  assume a: "num_classes \<noteq> - 1 \<and> (\<exists>k \<in> set (elements x). num_classes \<le> k)"
  then obtain k where k: "k \<in> set (elements x)" "num_classes \<le> k" by blast
  then have "max k 0 \<in> set (elements (maximum x 0))" "num_classes \<le> max k 0"
    by (auto simp: elements_maximum)
  then have "\<exists>v \<in> set (elements (maximum x 0)). num_classes \<le> v" by blast
  moreover have "\<forall>v \<in> set (elements (maximum x 0)). 0 \<le> v"
    by (auto simp: elements_maximum)
  ultimately have "tnn_one_hot (maximum x 0) num_classes =
         Inl (RuntimeError ''Class values must be smaller than num_classes.'')"
    using a by (intro tnn_one_hot_too_large) simp_all
  then show "one_hot cast x num_classes axis =
        Inl (RuntimeError ''Class values must be smaller than num_classes.'')"
    by (simp add: one_hot_def bind_err_Inl)
qed

text \<open>
  The example of the specification: \<^verbatim>\<open>one_hot([-1, 0, 2], num_classes=3)\<close> is
  \<^verbatim>\<open>[[0,0,0],[1,0,0],[0,0,1]]\<close>.
\<close>

theorem one_hot_entries_witness:
  "elements (contiguous [3] [- 1, 0, 2 :: int]) = [- 1, 0, 2] \<and>
   (\<exists>r. one_hot real_of_int (contiguous [3] [- 1, 0, 2 :: int]) 3 (- 1) = Inr r \<and>
        shape r = shape (contiguous [3] [- 1, 0, 2 :: int]) @ [nat 3] \<and>
        (\<forall>idx \<in> set (indices (shape (contiguous [3] [- 1, 0, 2 :: int]))). \<forall>j < nat 3.
           elem r (idx @ [j]) =
             real_of_int (if 0 \<le> elem (contiguous [3] [- 1, 0, 2 :: int]) idx \<and>
                             int j = elem (contiguous [3] [- 1, 0, 2 :: int]) idx
                          then 1 else 0))) \<and>
   one_hot real_of_int (contiguous [3] [- 1, 0, 2 :: int]) 3 (- 1) =
     Inr (contiguous [3, 3] [0, 0, 0, 1, 0, 0, 0, 0, 1]) \<and>
   elements (contiguous [1] [3 :: int]) = [3] \<and>
   one_hot real_of_int (contiguous [1] [3 :: int]) 3 (- 1) =
     Inl (RuntimeError ''Class values must be smaller than num_classes.'')"
proof -
  have e1: "elements (contiguous [3] [- 1, 0, 2 :: int]) = [- 1, 0, 2]"
    by (rule elements_contiguous) simp
  have e2: "elements (contiguous [1] [3 :: int]) = [3]"
    by (rule elements_contiguous) simp
  have h1: "0 < (3 :: int) \<and> (\<forall>k \<in> set (elements (contiguous [3] [- 1, 0, 2 :: int])). k < 3)"
    unfolding e1 by simp
  have h2: "(3 :: int) \<noteq> - 1 \<and> (\<exists>k \<in> set (elements (contiguous [1] [3 :: int])). 3 \<le> k)"
    unfolding e2 by simp
  note c1 = one_hot_entries [of 3 "contiguous [3] [- 1, 0, 2]" real_of_int,
                             THEN conjunct1, rule_format, OF h1]
  note c2 = one_hot_entries [of 3 "contiguous [1] [3]" real_of_int "- 1",
                             THEN conjunct2, rule_format, OF h2]
  have v: "one_hot real_of_int (contiguous [3] [- 1, 0, 2 :: int]) 3 (- 1) =
           Inr (contiguous [3, 3] [0, 0, 0, 1, 0, 0, 0, 0, 1])"
    using one_hot_last_axis [of 3 "contiguous [3] [- 1, 0, 2]" real_of_int]
    by (simp add: e1 shape_contiguous upt_rec)
  from e1 c1 v e2 c2 show ?thesis by (intro conjI)
qed

section \<open>The variance of the moments\<close>











end
